theory Spec2Isabelle
  imports Complex_Main
begin

section \<open>Python values used by the giveaway model\<close>

text \<open>
  The source is \<^verbatim>\<open>giveaways/models/giveaway.py\<close>. Keyword arguments and the serialized
  form are Python dicts whose values are dynamically typed, and the constructors store
  most of them verbatim, so the fields of the event record are values of one universe
  \<open>pyval\<close>. The classes \<^verbatim>\<open>Requirements\<close> and \<^verbatim>\<open>GiveawayFlags\<close> live in other modules;
  an instance is represented by what this file reads from it.
\<close>

datatype json = JNull | JInt int | JStr string | JList "json list" | JObj "(string \<times> json) list"

type_synonym role = int

record member =
  member_id :: int
  member_roles :: "role list"

datatype reqval = RList "role list" | RNum int | RNone

record requirements =
  req_null :: bool
  req_role_dict :: "(string \<times> reqval) list"
  req_messages :: "int option"
  req_json :: "(string \<times> json) list"

record flags =
  no_donor :: bool
  donor :: "member option"
  no_multiple_winners :: bool
  no_multi :: bool
  message_count :: int
  flag_no_defaults :: bool
  flag_channel :: "int option"
  flags_json :: "(string \<times> json) list"

datatype pyval =
    PNone
  | PInt int
  | PStr string
  | PFloat rat
  | PTime int
  | PBot nat
  | PReq requirements
  | PFlags flags
  | PList "pyval list"
  | PDict "(string \<times> json) list"
  | PMember member

text \<open>
  \<open>PTime t\<close> is an aware UTC \<^verbatim>\<open>datetime\<close>, \<open>t\<close> microseconds after the epoch; \<open>PFloat\<close>
  is the float a timestamp serializes to; \<open>PBot\<close> is the client handle. Truthiness is
  Python's: \<^verbatim>\<open>None\<close>, zero, the empty string, list and dict are false, a \<^verbatim>\<open>datetime\<close>
  and any plain object are true.
\<close>

fun truthy :: "pyval \<Rightarrow> bool" where
  "truthy PNone = False"
| "truthy (PInt i) = (i \<noteq> 0)"
| "truthy (PStr s) = (s \<noteq> [])"
| "truthy (PFloat q) = (q \<noteq> 0)"
| "truthy (PTime t) = True"
| "truthy (PBot b) = True"
| "truthy (PReq r) = True"
| "truthy (PFlags f) = True"
| "truthy (PList xs) = (xs \<noteq> [])"
| "truthy (PDict kvs) = (kvs \<noteq> [])"
| "truthy (PMember m) = True"

definition py_or :: "pyval \<Rightarrow> pyval \<Rightarrow> pyval" where
  "py_or a b = (if truthy a then a else b)"

text \<open>
  Python's \<^verbatim>\<open>==\<close>: an int equals the float of the same value, two members are equal when
  their ids are (\<^verbatim>\<open>discord.Member.__eq__\<close>), an int never equals a member or \<^verbatim>\<open>None\<close>.
\<close>

definition py_eq :: "pyval \<Rightarrow> pyval \<Rightarrow> bool" where
  "py_eq a b =
     (case a of
        PInt i \<Rightarrow> (case b of PInt j \<Rightarrow> i = j | PFloat q \<Rightarrow> of_int i = q | _ \<Rightarrow> False)
      | PFloat q \<Rightarrow> (case b of PInt j \<Rightarrow> q = of_int j | PFloat r \<Rightarrow> q = r | _ \<Rightarrow> False)
      | PMember m \<Rightarrow> (case b of PMember n \<Rightarrow> member_id m = member_id n | _ \<Rightarrow> False)
      | _ \<Rightarrow> a = b)"

definition py_in :: "pyval \<Rightarrow> pyval list \<Rightarrow> bool" where
  "py_in x xs = list_ex (py_eq x) xs"

definition set_add :: "pyval \<Rightarrow> pyval list \<Rightarrow> pyval list" where
  "set_add x s = (if py_in x s then s else s @ [x])"

definition set_remove :: "pyval \<Rightarrow> pyval list \<Rightarrow> pyval list" where
  "set_remove x s = filter (\<lambda>y. \<not> py_eq x y) s"

fun hashable :: "pyval \<Rightarrow> bool" where
  "hashable (PList xs) = False"
| "hashable (PDict kvs) = False"
| "hashable v = True"

datatype error =
    GiveawayError string
  | GiveawayAlreadyEnded pyval
  | GiveawayNotStarted pyval
  | AttributeError string
  | TypeError
  | KeyError string
  | IndexError
  | ServiceError

text \<open>
  \<^verbatim>\<open>set(x)\<close>. A Python set is kept as the list of its elements without repetition; the
  order of that list stands for the iteration order, which Python leaves open.
\<close>

definition set_of_list :: "pyval list \<Rightarrow> pyval list" where
  "set_of_list xs = foldl (\<lambda>s x. set_add x s) [] xs"

fun py_set :: "pyval \<Rightarrow> error + pyval list" where
  "py_set (PList xs) = (if list_all hashable xs then Inr (set_of_list xs) else Inl TypeError)"
| "py_set (PStr s) = Inr (set_of_list (map (\<lambda>c. PStr [c]) s))"
| "py_set (PDict kvs) = Inr (set_of_list (map (\<lambda>kv. PStr (fst kv)) kvs))"
| "py_set v = Inl TypeError"

type_synonym pydict = "(string \<times> pyval) list"

definition dict_get :: "pydict \<Rightarrow> string \<Rightarrow> pyval" where
  "dict_get d k = (case map_of d k of None \<Rightarrow> PNone | Some v \<Rightarrow> v)"

definition dict_get_default :: "pydict \<Rightarrow> string \<Rightarrow> pyval \<Rightarrow> pyval" where
  "dict_get_default d k dflt = (case map_of d k of None \<Rightarrow> dflt | Some v \<Rightarrow> v)"

section \<open>The event record and its construction\<close>

text \<open>
  One record serves \<^verbatim>\<open>GiveawayMeta\<close>, \<^verbatim>\<open>Giveaway\<close> and \<^verbatim>\<open>EndedGiveaway\<close>. The attributes
  \<^verbatim>\<open>_message_cache\<close> (set by \<^verbatim>\<open>Giveaway.__init__\<close> under a condition) and \<^verbatim>\<open>reason\<close> (set by
  \<^verbatim>\<open>EndedGiveaway\<close>) may be missing from an object: \<open>None\<close> says the attribute is absent.
\<close>

record giveaway =
  bot :: pyval
  message_id :: pyval
  channel_id :: pyval
  guild_id :: pyval
  prize :: pyval
  requirements :: pyval
  flags :: pyval
  emoji :: pyval
  amount_of_winners :: pyval
  entrants_set :: "pyval list"
  winners_list :: pyval
  host_id :: pyval
  starts_at :: pyval
  ends_at :: pyval
  message_cache :: "(int \<times> int) list option"
  reason :: "pyval option"

definition check_kwargs :: "pydict \<Rightarrow> error + (pyval \<times> pyval \<times> pyval \<times> pyval \<times> pyval)" where
  "check_kwargs kwargs =
     (let mid = dict_get kwargs ''message_id'' in
      if \<not> truthy mid then Inl (GiveawayError ''No message ID provided.'')
      else let gid = dict_get kwargs ''guild_id'' in
      if \<not> truthy gid then Inl (GiveawayError ''No guild ID provided.'')
      else let cid = dict_get kwargs ''channel_id'' in
      if \<not> truthy cid then Inl (GiveawayError ''No channel ID provided.'')
      else let e = dict_get kwargs ''ends_at'' in
      if \<not> truthy e then Inl (GiveawayError ''No ends_at provided for the giveaway.'')
      else let b = dict_get kwargs ''bot'' in
      if \<not> truthy b then Inl (GiveawayError ''No bot object provided.'')
      else Inr (mid, gid, cid, e, b))"

text \<open>
  \<^verbatim>\<open>GiveawayMeta.__init__(**kwargs)\<close>; \<open>now\<close> is what \<^verbatim>\<open>datetime.now(tz=timezone.utc)\<close>
  returns during the call.
\<close>

definition GiveawayMeta_init :: "int \<Rightarrow> pydict \<Rightarrow> error + giveaway" where
  "GiveawayMeta_init now kwargs =
     (case check_kwargs kwargs of
        Inl err \<Rightarrow> Inl err
      | Inr (mid, gid, cid, e, b) \<Rightarrow>
          (case py_set (py_or (dict_get_default kwargs ''entrants'' (PDict [])) (PDict [])) of
             Inl err \<Rightarrow> Inl err
           | Inr es \<Rightarrow>
               Inr \<lparr> bot = b,
                     message_id = mid,
                     channel_id = cid,
                     guild_id = gid,
                     prize = dict_get_default kwargs ''prize'' (PStr ''Giveaway prize''),
                     requirements = dict_get kwargs ''requirements'',
                     flags = dict_get kwargs ''flags'',
                     emoji = dict_get_default kwargs ''emoji'' (PStr '':tada:''),
                     amount_of_winners = dict_get_default kwargs ''amount_of_winners'' (PInt 1),
                     entrants_set = es,
                     winners_list = py_or (dict_get kwargs ''winners'') (PList []),
                     host_id = dict_get kwargs ''host'',
                     starts_at = dict_get_default kwargs ''starts_at'' (PTime now),
                     ends_at = e,
                     message_cache = None,
                     reason = None \<rparr>))"

text \<open>
  Everything outside the record that the code consults. The clock, the random generator,
  the reputation service (\<^verbatim>\<open>bot.amari\<close>), the chat client and the functions of the
  modules that are not part of this file are inputs of the model. \<open>amari env k i\<close> is the
  outcome of the \<open>k\<close>-th reputation lookup, made for member \<open>i\<close>; \<open>rng env k\<close> is the
  \<open>k\<close>-th random number, and \<^verbatim>\<open>random.choice(xs)\<close> is \<open>xs ! (rng env k mod length xs)\<close>.
\<close>

datatype amari_reply = AmariRaises | AmariReturns "(string \<times> int) list option"

datatype channel_reply = ChannelFound | ChannelFalsy | ChannelRaises

record env =
  clock :: int
  import_clock :: int
  to_timestamp :: "int \<Rightarrow> rat"
  from_timestamp :: "rat \<Rightarrow> int"
  req_from_json :: "pyval \<Rightarrow> error + requirements"
  flags_from_json :: "pyval \<Rightarrow> error + flags"
  no_defaults :: "requirements \<Rightarrow> bool \<Rightarrow> requirements"
  with_messages :: "requirements \<Rightarrow> int \<Rightarrow> requirements"
  guild_members :: "member list"
  amari :: "nat \<Rightarrow> int \<Rightarrow> amari_reply"
  rng :: "nat \<Rightarrow> nat"
  shuffle :: "member option list \<Rightarrow> member option list"
  apply_multi :: "member option list \<Rightarrow> member option list"
  channel_lookup :: channel_reply
  message_cached :: bool
  message_fetched :: bool
  sent_message_id :: pyval

text \<open>\<^verbatim>\<open>a > b\<close> on two \<^verbatim>\<open>datetime\<close>s; any other operand raises \<^verbatim>\<open>TypeError\<close>.\<close>

definition time_gt :: "pyval \<Rightarrow> pyval \<Rightarrow> error + bool" where
  "time_gt a b =
     (case a of
        PTime s \<Rightarrow> (case b of PTime t \<Rightarrow> Inr (s > t) | _ \<Rightarrow> Inl TypeError)
      | _ \<Rightarrow> Inl TypeError)"

definition Giveaway_params :: "string list" where
  "Giveaway_params =
     [''bot'', ''message_id'', ''channel_id'', ''guild_id'', ''requirements'', ''flags'',
      ''prize'', ''host'', ''amount_of_winners'', ''emoji'', ''starts_at'', ''ends_at'',
      ''entrants'', ''winners'']"

text \<open>
  The call \<^verbatim>\<open>super().__init__(bot=bot, message_id=message_id, ...)\<close> of both subclasses:
  every parameter is passed on by keyword, the omitted ones with the default of the
  signature, which is \<^verbatim>\<open>None\<close> except for \<^verbatim>\<open>starts_at\<close>, whose default
  \<^verbatim>\<open>datetime.now(tz=timezone.utc)\<close> was evaluated once, when the module was loaded.
\<close>

definition super_kwargs :: "env \<Rightarrow> pydict \<Rightarrow> pydict" where
  "super_kwargs env args =
     [(''bot'', dict_get args ''bot''),
      (''message_id'', dict_get_default args ''message_id'' PNone),
      (''channel_id'', dict_get_default args ''channel_id'' PNone),
      (''guild_id'', dict_get_default args ''guild_id'' PNone),
      (''prize'', dict_get_default args ''prize'' PNone),
      (''requirements'', dict_get_default args ''requirements'' PNone),
      (''flags'', dict_get_default args ''flags'' PNone),
      (''emoji'', dict_get_default args ''emoji'' PNone),
      (''entrants'', dict_get_default args ''entrants'' PNone),
      (''winners'', dict_get_default args ''winners'' PNone),
      (''host'', dict_get_default args ''host'' PNone),
      (''ends_at'', dict_get_default args ''ends_at'' PNone),
      (''starts_at'', dict_get_default args ''starts_at'' (PTime (import_clock env))),
      (''amount_of_winners'', dict_get_default args ''amount_of_winners'' PNone)]"

text \<open>
  \<^verbatim>\<open>Giveaway.__init__\<close>. The arguments are the keywords the caller wrote. The second
  component of the result says whether a waiter task was appended to \<^verbatim>\<open>_tasks\<close>.
\<close>

definition Giveaway_init :: "env \<Rightarrow> pydict \<Rightarrow> error + (giveaway \<times> bool)" where
  "Giveaway_init env args =
     (if \<not> list_all (\<lambda>kv. fst kv \<in> set Giveaway_params) args \<or> map_of args ''bot'' = None
      then Inl TypeError
      else (case GiveawayMeta_init (clock env) (super_kwargs env args) of
        Inl err \<Rightarrow> Inl err
      | Inr g \<Rightarrow>
          (case time_gt (starts_at g) (PTime (clock env)) of
             Inl err \<Rightarrow> Inl err
           | Inr waits \<Rightarrow>
               (case flags g of
                  PFlags f \<Rightarrow>
                    if message_count f \<noteq> 0 then Inr (g\<lparr>message_cache := Some []\<rparr>, waits)
                    else (case requirements g of
                            PReq r \<Rightarrow>
                              if req_messages r \<noteq> None \<and> req_messages r \<noteq> Some 0
                              then Inr (g\<lparr>message_cache := Some []\<rparr>, waits)
                              else Inr (g, waits)
                          | _ \<Rightarrow> Inl (AttributeError ''messages''))
                | _ \<Rightarrow> Inl (AttributeError ''message_count'')))))"

definition EndedGiveaway_init :: "env \<Rightarrow> pydict \<Rightarrow> error + giveaway" where
  "EndedGiveaway_init env args =
     (if \<not> list_all (\<lambda>kv. fst kv \<in> set (''reason'' # Giveaway_params)) args
         \<or> map_of args ''bot'' = None
      then Inl TypeError
      else (case GiveawayMeta_init (clock env) (super_kwargs env args) of
        Inl err \<Rightarrow> Inl err
      | Inr g \<Rightarrow> Inr (g\<lparr>reason := Some (dict_get_default args ''reason'' PNone)\<rparr>)))"

section \<open>Serialization\<close>

definition timestamp :: "env \<Rightarrow> pyval \<Rightarrow> error + pyval" where
  "timestamp env v =
     (case v of PTime t \<Rightarrow> Inr (PFloat (to_timestamp env t)) | _ \<Rightarrow> Inl (AttributeError ''timestamp''))"

definition fromtimestamp :: "env \<Rightarrow> pyval \<Rightarrow> error + pyval" where
  "fromtimestamp env v =
     (case v of
        PFloat q \<Rightarrow> Inr (PTime (from_timestamp env q))
      | PInt i \<Rightarrow> Inr (PTime (from_timestamp env (of_int i)))
      | _ \<Rightarrow> Inl TypeError)"

text \<open>\<^verbatim>\<open>x.json if x else {}\<close> for the requirements and the flags.\<close>

definition requirements_json :: "pyval \<Rightarrow> error + pyval" where
  "requirements_json v =
     (if truthy v
      then (case v of PReq r \<Rightarrow> Inr (PDict (req_json r)) | _ \<Rightarrow> Inl (AttributeError ''json''))
      else Inr (PDict []))"

definition flags_to_json :: "pyval \<Rightarrow> error + pyval" where
  "flags_to_json v =
     (if truthy v
      then (case v of PFlags f \<Rightarrow> Inr (PDict (flags_json f)) | _ \<Rightarrow> Inl (AttributeError ''json''))
      else Inr (PDict []))"

text \<open>The property \<^verbatim>\<open>GiveawayMeta.json\<close>.\<close>

definition giveaway_json :: "env \<Rightarrow> giveaway \<Rightarrow> error + pydict" where
  "giveaway_json env g =
     (case requirements_json (requirements g) of Inl err \<Rightarrow> Inl err | Inr rj \<Rightarrow>
     (case flags_to_json (flags g) of Inl err \<Rightarrow> Inl err | Inr fj \<Rightarrow>
     (case timestamp env (ends_at g) of Inl err \<Rightarrow> Inl err | Inr e \<Rightarrow>
     (case timestamp env (starts_at g) of Inl err \<Rightarrow> Inl err | Inr s \<Rightarrow>
        Inr [(''message_id'', message_id g),
             (''channel_id'', channel_id g),
             (''guild_id'', guild_id g),
             (''prize'', prize g),
             (''amount_of_winners'', amount_of_winners g),
             (''requirements'', rj),
             (''flags'', fj),
             (''emoji'', emoji g),
             (''entrants'', PList (entrants_set g)),
             (''winners'', winners_list g),
             (''host'', host_id g),
             (''ends_at'', e),
             (''starts_at'', s)]))))"

text \<open>\<^verbatim>\<open>d.update(k=v)\<close>.\<close>

definition dict_update :: "pydict \<Rightarrow> string \<Rightarrow> pyval \<Rightarrow> pydict" where
  "dict_update d k v = (k, v) # filter (\<lambda>kv. fst kv \<noteq> k) d"

text \<open>The property \<^verbatim>\<open>EndedGiveaway.json\<close>; reading \<^verbatim>\<open>self.reason\<close> needs the attribute.\<close>

definition ended_json :: "env \<Rightarrow> giveaway \<Rightarrow> error + pydict" where
  "ended_json env g =
     (case giveaway_json env g of
        Inl err \<Rightarrow> Inl err
      | Inr j \<Rightarrow> (case reason g of
                    None \<Rightarrow> Inl (AttributeError ''reason'')
                  | Some r \<Rightarrow> Inr (dict_update j ''reason'' r)))"

datatype cls = CGiveawayMeta | CGiveaway | CEndedGiveaway

text \<open>\<^verbatim>\<open>cls(**kwargs)\<close>.\<close>

definition construct :: "cls \<Rightarrow> env \<Rightarrow> pydict \<Rightarrow> error + giveaway" where
  "construct c env kwargs =
     (case c of
        CGiveawayMeta \<Rightarrow> GiveawayMeta_init (clock env) kwargs
      | CGiveaway \<Rightarrow> map_sum id fst (Giveaway_init env kwargs)
      | CEndedGiveaway \<Rightarrow> EndedGiveaway_init env kwargs)"

text \<open>The class method \<^verbatim>\<open>GiveawayMeta.from_json\<close>, \<open>c\<close> being the class it is called on.\<close>

definition meta_from_json :: "cls \<Rightarrow> env \<Rightarrow> pydict \<Rightarrow> error + giveaway" where
  "meta_from_json c env j =
     (case check_kwargs j of Inl err \<Rightarrow> Inl err | Inr (mid, gid, cid, e, b) \<Rightarrow>
     (case req_from_json env (dict_get_default j ''requirements'' (PDict [])) of
        Inl err \<Rightarrow> Inl err | Inr r \<Rightarrow>
     (case flags_from_json env (dict_get_default j ''flags'' (PDict [])) of
        Inl err \<Rightarrow> Inl err | Inr f \<Rightarrow>
     (case fromtimestamp env e of Inl err \<Rightarrow> Inl err | Inr ends \<Rightarrow>
     (case fromtimestamp env (dict_get j ''starts_at'') of Inl err \<Rightarrow> Inl err | Inr starts \<Rightarrow>
        construct c env
          [(''message_id'', mid),
           (''channel_id'', cid),
           (''guild_id'', gid),
           (''bot'', b),
           (''prize'', dict_get_default j ''prize'' (PStr ''Giveaway prize'')),
           (''amount_of_winners'', dict_get_default j ''amount_of_winners'' (PInt 1)),
           (''requirements'', PReq r),
           (''flags'', PFlags f),
           (''emoji'', dict_get_default j ''emoji'' (PStr '':tada:'')),
           (''entrants'', dict_get_default j ''entrants'' (PList [])),
           (''winners'', dict_get_default j ''winners'' (PList [])),
           (''host'', dict_get j ''host''),
           (''ends_at'', ends),
           (''starts_at'', starts)])))))"

text \<open>\<^verbatim>\<open>EndedGiveaway.from_json\<close> sets \<^verbatim>\<open>reason\<close> after the inherited reconstruction.\<close>

definition from_json :: "cls \<Rightarrow> env \<Rightarrow> pydict \<Rightarrow> error + giveaway" where
  "from_json c env j =
     (case c of
        CEndedGiveaway \<Rightarrow>
          (case meta_from_json c env j of
             Inl err \<Rightarrow> Inl err
           | Inr g \<Rightarrow> Inr (g\<lparr>reason := Some (dict_get j ''reason'')\<rparr>))
      | _ \<Rightarrow> meta_from_json c env j)"

text \<open>\<^verbatim>\<open>EndedGiveaway.from_giveaway(giveaway, reason)\<close>; \<open>giveaway\<close> is a \<^verbatim>\<open>Giveaway\<close>.\<close>

definition from_giveaway :: "env \<Rightarrow> giveaway \<Rightarrow> pyval \<Rightarrow> error + giveaway" where
  "from_giveaway env g rsn =
     (case giveaway_json env g of
        Inl err \<Rightarrow> Inl err
      | Inr kwargs \<Rightarrow>
          from_json CEndedGiveaway env
            (dict_update (dict_update kwargs ''reason'' (py_or rsn (PStr ''Giveaway ended successfully.'')))
               ''bot'' (bot g)))"

section \<open>Derived properties of the record\<close>

text \<open>
  \<^verbatim>\<open>guild.get_member(x)\<close> looks an id up among the members of the guild and gives \<^verbatim>\<open>None\<close>
  for an id that is not there. The guild itself is taken to be resolvable.
\<close>

definition get_member :: "env \<Rightarrow> pyval \<Rightarrow> member option" where
  "get_member env v = find (\<lambda>m. py_eq v (PInt (member_id m))) (guild_members env)"

definition entrants :: "env \<Rightarrow> giveaway \<Rightarrow> member option list" where
  "entrants env g = map (get_member env) (entrants_set g)"

definition host :: "env \<Rightarrow> giveaway \<Rightarrow> member option" where
  "host env g = get_member env (host_id g)"

definition started :: "env \<Rightarrow> giveaway \<Rightarrow> error + bool" where
  "started env g = time_gt (PTime (clock env)) (starts_at g)"

definition ended :: "env \<Rightarrow> giveaway \<Rightarrow> error + bool" where
  "ended env g = time_gt (PTime (clock env)) (ends_at g)"

definition member_val :: "member option \<Rightarrow> pyval" where
  "member_val mo = (case mo of None \<Rightarrow> PNone | Some m \<Rightarrow> PMember m)"

text \<open>\<^verbatim>\<open>_get_message\<close>: whether a message object was obtained, or the exception raised.\<close>

definition get_message :: "env \<Rightarrow> error + bool" where
  "get_message env =
     (case channel_lookup env of
        ChannelRaises \<Rightarrow> Inl ServiceError
      | ChannelFalsy \<Rightarrow> Inl (GiveawayError ''The channel for this giveaway could not be found.'')
      | ChannelFound \<Rightarrow> Inr (message_cached env \<or> message_fetched env))"

section \<open>Entry evaluation\<close>

text \<open>
  The second component of the pair \<^verbatim>\<open>verify_entry\<close> returns is a message for the member.
  Its text is fixed by the branch that produced it and the values put into it, which is
  what a \<open>statement\<close> records.
\<close>

datatype statement =
    NoStatement
  | NoDonorEntry
  | BlacklistedRole role
  | MissingRole role
  | AmariLevelShort int int
  | AmariWeeklyShort int int
  | MessagesShort int int

text \<open>The inner loop \<^verbatim>\<open>for i in value\<close> over a list of roles.\<close>

fun check_roles :: "string \<Rightarrow> role list \<Rightarrow> member \<Rightarrow> statement option" where
  "check_roles key [] m = None"
| "check_roles key (i # rest) m =
     (if key = ''blacklist'' \<and> i \<in> set (member_roles m) then Some (BlacklistedRole i)
      else if key = ''required'' \<and> i \<notin> set (member_roles m) then Some (MissingRole i)
      else check_roles key rest m)"

text \<open>\<^verbatim>\<open>(await self.bot.amari.get_user(...)) or {}\<close> and \<^verbatim>\<open>user.get(k, 0)\<close>.\<close>

definition user_or_empty :: "(string \<times> int) list option \<Rightarrow> (string \<times> int) list" where
  "user_or_empty u = (case u of None \<Rightarrow> [] | Some d \<Rightarrow> d)"

definition user_get :: "(string \<times> int) list \<Rightarrow> string \<Rightarrow> int" where
  "user_get d k = (case map_of d k of None \<Rightarrow> 0 | Some v \<Rightarrow> v)"

definition setdefault :: "(int \<times> int) list \<Rightarrow> int \<Rightarrow> int \<Rightarrow> (int \<times> int) list" where
  "setdefault c k v = (case map_of c k of None \<Rightarrow> c @ [(k, v)] | Some x \<Rightarrow> c)"

text \<open>
  The loop \<^verbatim>\<open>for key, value in requirements.items()\<close> of \<^verbatim>\<open>verify_entry\<close>. The result is
  the outcome (an exception or the returned pair), the record after the call and the
  number of reputation lookups made so far.
\<close>

fun verify_items ::
  "env \<Rightarrow> member \<Rightarrow> (string \<times> reqval) list \<Rightarrow> giveaway \<Rightarrow> nat
     \<Rightarrow> (error + bool \<times> statement) \<times> giveaway \<times> nat" where
  "verify_items env m [] g k = (Inr (True, NoStatement), g, k)"
| "verify_items env m ((key, RNone) # rest) g k = verify_items env m rest g k"
| "verify_items env m ((key, RList rs) # rest) g k =
     (case check_roles key rs m of
        Some st \<Rightarrow> (Inr (False, st), g, k)
      | None \<Rightarrow> verify_items env m rest g k)"
| "verify_items env m ((key, RNum v) # rest) g k =
     (if v = 0 then verify_items env m rest g k
      else if key = ''amari_level'' then
        (case amari env k (member_id m) of
           AmariRaises \<Rightarrow> (Inl ServiceError, g, Suc k)
         | AmariReturns u \<Rightarrow>
             (let level = user_get (user_or_empty u) ''level'' in
              if level < v then (Inr (False, AmariLevelShort level v), g, Suc k)
              else verify_items env m rest g (Suc k)))
      else if key = ''amari_weekly'' then
        (let user = (case amari env k (member_id m) of
                       AmariRaises \<Rightarrow> []
                     | AmariReturns u \<Rightarrow> user_or_empty u);
             weeklyxp = user_get user ''weeklyExp'' in
         if weeklyxp < v then (Inr (False, AmariWeeklyShort weeklyxp v), g, Suc k)
         else verify_items env m rest g (Suc k))
      else if key = ''messages'' then
        (case message_cache g of
           None \<Rightarrow> (Inl (AttributeError ''_message_cache''), g, k)
         | Some c \<Rightarrow>
             (let messages = (case map_of c (member_id m) of None \<Rightarrow> 0 | Some n \<Rightarrow> n);
                  g' = g\<lparr>message_cache := Some (setdefault c (member_id m) 0)\<rparr> in
              if \<not> messages \<ge> v then (Inr (False, MessagesShort messages v), g', k)
              else verify_items env m rest g' k))
      else verify_items env m rest g k)"

text \<open>\<^verbatim>\<open>any(role in member.roles for role in requirements["bypass"])\<close>, guarded by truthiness.\<close>

definition maybe_bypass :: "reqval \<Rightarrow> member \<Rightarrow> error + bool" where
  "maybe_bypass b m =
     (case b of
        RList rs \<Rightarrow> Inr (list_ex (\<lambda>r. r \<in> set (member_roles m)) rs)
      | RNum v \<Rightarrow> (if v = 0 then Inr False else Inl TypeError)
      | RNone \<Rightarrow> Inr False)"

text \<open>The part of \<^verbatim>\<open>verify_entry\<close> after the donor check.\<close>

definition verify_requirements ::
  "env \<Rightarrow> member option \<Rightarrow> giveaway \<Rightarrow> nat \<Rightarrow> (error + bool \<times> statement) \<times> giveaway \<times> nat" where
  "verify_requirements env mo g k =
     (case requirements g of
        PReq r \<Rightarrow>
          (if \<not> req_null r then
             (case mo of
                None \<Rightarrow> (Inl (AttributeError ''guild''), g, k)
              | Some m \<Rightarrow>
                  (case map_of (req_role_dict r) ''bypass'' of
                     None \<Rightarrow> (Inl (KeyError ''bypass''), g, k)
                   | Some b \<Rightarrow>
                       (case maybe_bypass b m of
                          Inl err \<Rightarrow> (Inl err, g, k)
                        | Inr True \<Rightarrow> (Inr (True, NoStatement), g, k)
                        | Inr False \<Rightarrow> verify_items env m (req_role_dict r) g k)))
           else (Inr (True, NoStatement), g, k))
      | _ \<Rightarrow> (Inl (AttributeError ''null''), g, k))"

definition verify_entry ::
  "env \<Rightarrow> member option \<Rightarrow> giveaway \<Rightarrow> nat \<Rightarrow> (error + bool \<times> statement) \<times> giveaway \<times> nat" where
  "verify_entry env mo g k =
     (case flags g of
        PFlags f \<Rightarrow>
          (if no_donor f then
             (case mo of
                None \<Rightarrow> (Inl (AttributeError ''id''), g, k)
              | Some m \<Rightarrow>
                  (case (case donor f of Some d \<Rightarrow> Some d | None \<Rightarrow> host env g) of
                     None \<Rightarrow> (Inl (AttributeError ''id''), g, k)
                   | Some d \<Rightarrow>
                       (if member_id m = member_id d then (Inr (False, NoDonorEntry), g, k)
                        else verify_requirements env mo g k)))
           else verify_requirements env mo g k)
      | _ \<Rightarrow> (Inl (AttributeError ''no_donor''), g, k))"

section \<open>Entrants\<close>

datatype entry_result = ReturnsStatement statement | ReturnsFalse | ReturnsTrue

definition add_entrant ::
  "env \<Rightarrow> member option \<Rightarrow> giveaway \<Rightarrow> nat \<Rightarrow> (error + entry_result) \<times> giveaway \<times> nat" where
  "add_entrant env mo g k =
     (case verify_entry env mo g k of
        (Inl err, g', k') \<Rightarrow> (Inl err, g', k')
      | (Inr (result, st), g', k') \<Rightarrow>
          (if \<not> result then (Inr (ReturnsStatement st), g', k')
           else (case mo of
                   None \<Rightarrow> (Inl (AttributeError ''id''), g', k')
                 | Some m \<Rightarrow>
                     (if py_in (PInt (member_id m)) (map member_val (entrants env g'))
                      then (Inr ReturnsFalse, g', k')
                      else (Inr ReturnsTrue,
                            g'\<lparr>entrants_set := set_add (PInt (member_id m)) (entrants_set g')\<rparr>,
                            k')))))"

definition remove_entrant :: "member option \<Rightarrow> giveaway \<Rightarrow> (error + bool) \<times> giveaway" where
  "remove_entrant mo g =
     (case mo of
        None \<Rightarrow> (Inl (AttributeError ''id''), g)
      | Some m \<Rightarrow>
          (if \<not> py_in (PInt (member_id m)) (entrants_set g) then (Inr False, g)
           else (Inr True, g\<lparr>entrants_set := set_remove (PInt (member_id m)) (entrants_set g)\<rparr>)))"

section \<open>Winner selection\<close>

record io =
  draws :: nat
  lookups :: nat

text \<open>\<^verbatim>\<open>w in w_list\<close> on members.\<close>

definition member_in :: "member option \<Rightarrow> member option list \<Rightarrow> bool" where
  "member_in w ws = py_in (member_val w) (map member_val ws)"

text \<open>
  The loop \<^verbatim>\<open>for _ in range(self.amount_of_winners)\<close> of \<^verbatim>\<open>pick_winners\<close>; the natural
  number is the count of iterations left. \<open>draws\<close> counts the calls of \<^verbatim>\<open>random.choice\<close>.
\<close>

fun pick_loop ::
  "env \<Rightarrow> member option list \<Rightarrow> nat \<Rightarrow> member option list \<Rightarrow> giveaway \<Rightarrow> io
     \<Rightarrow> (error + member option list) \<times> giveaway \<times> io" where
  "pick_loop env pool 0 w_list g s = (Inr w_list, g, s)"
| "pick_loop env pool (Suc n) w_list g s =
     (let w = pool ! (rng env (draws s) mod length pool);
          s1 = s\<lparr>draws := Suc (draws s)\<rparr> in
      case verify_entry env w g (lookups s1) of
        (Inl err, g', k') \<Rightarrow> (Inl err, g', s1\<lparr>lookups := k'\<rparr>)
      | (Inr (ok, st), g', k') \<Rightarrow>
          (if \<not> ok then pick_loop env pool n w_list g' (s1\<lparr>lookups := k'\<rparr>)
           else (case flags g' of
                   PFlags f \<Rightarrow>
                     (if no_multiple_winners f \<and> member_in w w_list
                      then pick_loop env pool n w_list g' (s1\<lparr>lookups := k'\<rparr>)
                      else pick_loop env pool n (w_list @ [w]) g' (s1\<lparr>lookups := k'\<rparr>))
                 | _ \<Rightarrow> (Inl (AttributeError ''no_multiple_winners''), g', s1\<lparr>lookups := k'\<rparr>))))"

text \<open>
  \<^verbatim>\<open>pick_winners(entrants)\<close>. The argument \<open>arg\<close> is the list passed; the empty list also
  stands for the default \<^verbatim>\<open>None\<close>, which \<^verbatim>\<open>entrants or self.entrants\<close> treats alike.
\<close>

definition pick_winners ::
  "env \<Rightarrow> member option list \<Rightarrow> giveaway \<Rightarrow> io
     \<Rightarrow> (error + member option list) \<times> giveaway \<times> io" where
  "pick_winners env arg g s =
     (let pool = (if arg \<noteq> [] then arg else entrants env g) in
      if pool \<noteq> [] then
        (case amount_of_winners g of
           PInt n \<Rightarrow> pick_loop env pool (nat n) [] g s
         | _ \<Rightarrow> (Inl TypeError, g, s))
      else (Inr [], g, s))"

section \<open>Start and end\<close>

text \<open>
  Sending, editing and replying through the chat client are taken to succeed; what the
  code branches on (the channel and the published message) comes from the environment.
  \<^verbatim>\<open>start\<close> reads \<^verbatim>\<open>self.time_to_end\<close> while it builds the exception for an ended event;
  no class of the file defines that attribute. After the guard, \<^verbatim>\<open>start\<close> is followed
  through \<^verbatim>\<open>create_embed\<close>, the sending of the message and \<^verbatim>\<open>_handle_flags\<close> as far as
  they read or assign attributes of the event.
\<close>

definition start :: "env \<Rightarrow> giveaway \<Rightarrow> (error + unit) \<times> giveaway" where
  "start env g =
     (case ended env g of
        Inl err \<Rightarrow> (Inl err, g)
      | Inr True \<Rightarrow> (Inl (AttributeError ''time_to_end''), g)
      | Inr False \<Rightarrow>
          (case flags g of
             PFlags f \<Rightarrow>
               (case host env g of
                  None \<Rightarrow> (Inl (AttributeError ''avatar_url''), g)
                | Some h \<Rightarrow>
                    (case channel_lookup env of
                       ChannelRaises \<Rightarrow> (Inl ServiceError, g)
                     | ChannelFalsy \<Rightarrow>
                         (Inl (GiveawayError ''The channel for this giveaway could not be found.''), g)
                     | ChannelFound \<Rightarrow>
                         (case requirements g of
                            PReq r \<Rightarrow>
                              (let r1 = no_defaults env r (flag_no_defaults f);
                                   r2 = (if message_count f \<noteq> 0
                                         then with_messages env r1 (message_count f) else r1);
                                   g1 = g\<lparr>requirements := PReq r2,
                                          message_id := sent_message_id env\<rparr>;
                                   g2 = (case flag_channel f of
                                           None \<Rightarrow> g1
                                         | Some c \<Rightarrow> g1\<lparr>channel_id := PInt c\<rparr>)
                               in (Inr (), g2))
                          | _ \<Rightarrow> (Inl (AttributeError ''no_defaults''), g))))
           | _ \<Rightarrow> (Inl (AttributeError ''donor''), g)))"

definition end_giveaway ::
  "env \<Rightarrow> pyval \<Rightarrow> giveaway \<Rightarrow> io \<Rightarrow> (error + giveaway) \<times> giveaway \<times> io" where
  "end_giveaway env rsn g s =
     (case started env g of
        Inl err \<Rightarrow> (Inl err, g, s)
      | Inr False \<Rightarrow> (Inl (GiveawayNotStarted (message_id g)), g, s)
      | Inr True \<Rightarrow>
          (case get_message env of
             Inl err \<Rightarrow> (Inl err, g, s)
           | Inr False \<Rightarrow>
               (from_giveaway env g
                  (PStr ''The giveaway message was either deleted or bot had no `read message/history` permissions.''),
                g, s)
           | Inr True \<Rightarrow>
               (case flags g of
                  PFlags f \<Rightarrow>
                    (let shuffled = shuffle env (entrants env g);
                         pool = (if \<not> no_multi f then apply_multi env shuffled else shuffled) in
                     case pick_winners env pool g s of
                       (Inl err, g', s') \<Rightarrow> (Inl err, g', s')
                     | (Inr w_list, g', s') \<Rightarrow>
                         (if list_ex (\<lambda>w. w = None) w_list then (Inl (AttributeError ''id''), g', s')
                          else (let g'' = g'\<lparr>winners_list :=
                                           PList (map (\<lambda>w. PInt (member_id (the w))) w_list)\<rparr> in
                                case host env g'' of
                                  None \<Rightarrow> (Inl (AttributeError ''mention''), g'', s')
                                | Some h \<Rightarrow> (from_giveaway env g'' rsn, g'', s'))))
                | _ \<Rightarrow> (Inl (AttributeError ''no_multi''), g, s))))"

section \<open>Reroll\<close>

datatype reroll_reply =
    CouldNotFindMessage
  | NotEnoughEntrants
  | Congratulations "int list"
  | NotEnoughEligible

text \<open>\<^verbatim>\<open>entrants.remove(w)\<close> removes the first element equal to \<open>w\<close>.\<close>

fun list_remove :: "member option \<Rightarrow> member option list \<Rightarrow> member option list" where
  "list_remove w [] = []"
| "list_remove w (x # xs) =
     (if py_eq (member_val x) (member_val w) then xs else x # list_remove w xs)"

text \<open>
  The loop \<^verbatim>\<open>for _ in self.entrants\<close> of \<^verbatim>\<open>reroll\<close>; the natural number is the count of
  iterations left and \<open>winners\<close> is the requested count after \<^verbatim>\<open>winners or 1\<close>.
  \<^verbatim>\<open>random.choice\<close> raises \<^verbatim>\<open>IndexError\<close> on an empty list.
\<close>

fun reroll_loop ::
  "env \<Rightarrow> int \<Rightarrow> nat \<Rightarrow> member option list \<Rightarrow> int list \<Rightarrow> giveaway \<Rightarrow> io
     \<Rightarrow> (error + int list) \<times> giveaway \<times> io" where
  "reroll_loop env winners 0 pool winner g s = (Inr winner, g, s)"
| "reroll_loop env winners (Suc n) pool winner g s =
     (if pool = [] then (Inl IndexError, g, s)
      else
        (let w = pool ! (rng env (draws s) mod length pool);
             s1 = s\<lparr>draws := Suc (draws s)\<rparr> in
         case verify_entry env w g (lookups s1) of
           (Inl err, g', k') \<Rightarrow> (Inl err, g', s1\<lparr>lookups := k'\<rparr>)
         | (Inr (ok, st), g', k') \<Rightarrow>
             (if \<not> ok
              then reroll_loop env winners n (list_remove w pool) winner g' (s1\<lparr>lookups := k'\<rparr>)
              else (case w of
                      None \<Rightarrow> (Inl (AttributeError ''id''), g', s1\<lparr>lookups := k'\<rparr>)
                    | Some m \<Rightarrow>
                        (if int (length (winner @ [member_id m])) = winners
                         then (Inr (winner @ [member_id m]), g', s1\<lparr>lookups := k'\<rparr>)
                         else reroll_loop env winners n pool (winner @ [member_id m]) g'
                                (s1\<lparr>lookups := k'\<rparr>))))))"

text \<open>
  \<^verbatim>\<open>reroll(ctx, winners)\<close>. The method returns nothing; its results are the reply it sends
  and the new \<^verbatim>\<open>_winners\<close>. \<open>count\<close> is the argument, \<open>None\<close> when it is omitted.
\<close>

definition reroll ::
  "env \<Rightarrow> int option \<Rightarrow> giveaway \<Rightarrow> io \<Rightarrow> (error + reroll_reply) \<times> giveaway \<times> io" where
  "reroll env count g s =
     (case get_message env of
        Inl err \<Rightarrow> (Inl err, g, s)
      | Inr False \<Rightarrow> (Inr CouldNotFindMessage, g, s)
      | Inr True \<Rightarrow>
          (let winners = (case count of None \<Rightarrow> 1 | Some n \<Rightarrow> if n = 0 then 1 else n);
               pool = apply_multi env (entrants env g) in
           if length pool = 0 then (Inr NotEnoughEntrants, g, s)
           else (case reroll_loop env winners (length (entrants env g)) pool [] g s of
                   (Inl err, g', s') \<Rightarrow> (Inl err, g', s')
                 | (Inr winner, g', s') \<Rightarrow>
                     (Inr (if winner \<noteq> [] then Congratulations winner else NotEnoughEligible),
                      g'\<lparr>winners_list := PList (map PInt winner)\<rparr>, s'))))"

section \<open>Counting along a run of the drawing loops\<close>


text \<open>
  The number of draws that re-validation rejects in a run of the loop of \<^verbatim>\<open>reroll\<close>,
  counted draw by draw until the loop ends.
\<close>

fun reroll_rejected ::
  "env \<Rightarrow> int \<Rightarrow> nat \<Rightarrow> member option list \<Rightarrow> int list \<Rightarrow> giveaway \<Rightarrow> io \<Rightarrow> nat" where
  "reroll_rejected env winners 0 pool winner g s = 0"
| "reroll_rejected env winners (Suc n) pool winner g s =
     (if pool = [] then 0
      else
        (let w = pool ! (rng env (draws s) mod length pool);
             s1 = s\<lparr>draws := Suc (draws s)\<rparr> in
         case verify_entry env w g (lookups s1) of
           (Inl err, g', k') \<Rightarrow> 0
         | (Inr (ok, st), g', k') \<Rightarrow>
             (if \<not> ok
              then Suc (reroll_rejected env winners n (list_remove w pool) winner g'
                          (s1\<lparr>lookups := k'\<rparr>))
              else (case w of
                      None \<Rightarrow> 0
                    | Some m \<Rightarrow>
                        (if int (length (winner @ [member_id m])) = winners then 0
                         else reroll_rejected env winners n pool (winner @ [member_id m]) g'
                                (s1\<lparr>lookups := k'\<rparr>))))))"

section \<open>An environment and an event for the examples\<close>

text \<open>
  The clock stands at 100, the module was loaded at 40. Timestamps are the exact number
  of seconds. The guild has the members 7 and 8, member 8 holding role 5. The reputation
  service answers every lookup with an empty user, the random generator returns its call
  count, the multiplier expansion and the shuffle leave a list as it is, and the channel
  and the published message are found.
\<close>

definition example_env :: env where
  "example_env =
     \<lparr> clock = 100,
       import_clock = 40,
       to_timestamp = (\<lambda>t. of_int t / 1000000),
       from_timestamp = (\<lambda>q. round (q * 1000000)),
       req_from_json =
         (\<lambda>v. case v of
                 PDict kvs \<Rightarrow> Inr \<lparr> req_null = True, req_role_dict = [], req_messages = None,
                                     req_json = kvs \<rparr>
               | _ \<Rightarrow> Inl TypeError),
       flags_from_json =
         (\<lambda>v. case v of
                 PDict kvs \<Rightarrow> Inr \<lparr> no_donor = False, donor = None, no_multiple_winners = False,
                                     no_multi = False, message_count = 0,
                                     flag_no_defaults = False, flag_channel = None,
                                     flags_json = kvs \<rparr>
               | _ \<Rightarrow> Inl TypeError),
       no_defaults = (\<lambda>r b. r),
       with_messages = (\<lambda>r n. r\<lparr>req_messages := Some n\<rparr>),
       guild_members = [\<lparr>member_id = 7, member_roles = []\<rparr>, \<lparr>member_id = 8, member_roles = [5]\<rparr>],
       amari = (\<lambda>k i. AmariReturns None),
       rng = (\<lambda>k. k),
       shuffle = (\<lambda>xs. xs),
       apply_multi = (\<lambda>xs. xs),
       channel_lookup = ChannelFound,
       message_cached = True,
       message_fetched = True,
       sent_message_id = PInt 99 \<rparr>"

definition no_requirements :: requirements where
  "no_requirements = \<lparr> req_null = True, req_role_dict = [], req_messages = None, req_json = [] \<rparr>"

definition no_flags :: flags where
  "no_flags = \<lparr> no_donor = False, donor = None, no_multiple_winners = False, no_multi = False,
                message_count = 0, flag_no_defaults = False, flag_channel = None,
                flags_json = [] \<rparr>"

text \<open>An event without rules or flags, started at 10 and ending at 50, with no entrants yet.\<close>

definition example_giveaway :: giveaway where
  "example_giveaway =
     \<lparr> bot = PBot 0, message_id = PInt 1, channel_id = PInt 3, guild_id = PInt 2,
       prize = PStr ''Giveaway prize'', requirements = PReq no_requirements,
       flags = PFlags no_flags, emoji = PStr '':tada:'', amount_of_winners = PInt 1,
       entrants_set = [], winners_list = PList [], host_id = PInt 8,
       starts_at = PTime 10, ends_at = PTime 50, message_cache = None, reason = None \<rparr>"

section \<open>Properties\<close>

subsection \<open>Construction\<close>

lemma check_kwargs_Inr:
  "check_kwargs kw = Inr r \<longleftrightarrow>
     (truthy (dict_get kw ''message_id'') \<and> truthy (dict_get kw ''guild_id'')
      \<and> truthy (dict_get kw ''channel_id'') \<and> truthy (dict_get kw ''ends_at'')
      \<and> truthy (dict_get kw ''bot'')
      \<and> r = (dict_get kw ''message_id'', dict_get kw ''guild_id'', dict_get kw ''channel_id'',
             dict_get kw ''ends_at'', dict_get kw ''bot''))"
  by (auto simp: check_kwargs_def Let_def)

lemma py_set_error: "py_set v = Inl e \<Longrightarrow> e = TypeError"
  by (cases v) (auto split: if_splits)

lemma GiveawayMeta_init_keeps_times:
  "GiveawayMeta_init now kw = Inr g \<Longrightarrow>
     ends_at g = dict_get kw ''ends_at'' \<and> truthy (ends_at g)
     \<and> starts_at g = dict_get_default kw ''starts_at'' (PTime now)"
  by (auto simp: GiveawayMeta_init_def check_kwargs_Inr split: sum.splits prod.splits)

lemma GiveawayMeta_init_required:
  "(truthy (dict_get kw ''message_id'') \<and> truthy (dict_get kw ''guild_id'')
      \<and> truthy (dict_get kw ''channel_id'') \<and> truthy (dict_get kw ''ends_at'')
      \<and> truthy (dict_get kw ''bot'')
     \<longrightarrow> (\<forall>err. GiveawayMeta_init now kw = Inl err \<longrightarrow> err = TypeError))
   \<and> (\<not> truthy (dict_get kw ''message_id'')
     \<longrightarrow> GiveawayMeta_init now kw = Inl (GiveawayError ''No message ID provided.''))
   \<and> (truthy (dict_get kw ''message_id'') \<and> \<not> truthy (dict_get kw ''guild_id'')
     \<longrightarrow> GiveawayMeta_init now kw = Inl (GiveawayError ''No guild ID provided.''))
   \<and> (truthy (dict_get kw ''message_id'') \<and> truthy (dict_get kw ''guild_id'')
      \<and> \<not> truthy (dict_get kw ''channel_id'')
     \<longrightarrow> GiveawayMeta_init now kw = Inl (GiveawayError ''No channel ID provided.''))
   \<and> (truthy (dict_get kw ''message_id'') \<and> truthy (dict_get kw ''guild_id'')
      \<and> truthy (dict_get kw ''channel_id'') \<and> \<not> truthy (dict_get kw ''ends_at'')
     \<longrightarrow> GiveawayMeta_init now kw = Inl (GiveawayError ''No ends_at provided for the giveaway.''))
   \<and> (truthy (dict_get kw ''message_id'') \<and> truthy (dict_get kw ''guild_id'')
      \<and> truthy (dict_get kw ''channel_id'') \<and> truthy (dict_get kw ''ends_at'')
      \<and> \<not> truthy (dict_get kw ''bot'')
     \<longrightarrow> GiveawayMeta_init now kw = Inl (GiveawayError ''No bot object provided.''))"
  by (auto simp: GiveawayMeta_init_def check_kwargs_def Let_def split: sum.splits
      dest: py_set_error)

subsection \<open>Lifecycle guards\<close>

text \<open>
  Claim C2. For an event that has not started, \<^verbatim>\<open>end\<close> raises \<^verbatim>\<open>GiveawayNotStarted\<close> and
  leaves the record as it was. For an event that has ended, \<^verbatim>\<open>start\<close> leaves the record
  as it was too, but the exception that leaves it is \<^verbatim>\<open>AttributeError\<close>: the arguments
  of the \<^verbatim>\<open>GiveawayAlreadyEnded\<close> it means to raise read the attribute \<^verbatim>\<open>time_to_end\<close>,
  which does not exist.
\<close>

theorem start_on_ended_raises_AttributeError:
  "(ended env g = Inr True \<longrightarrow> start env g = (Inl (AttributeError ''time_to_end''), g))
   \<and> (started env g = Inr False \<longrightarrow>
        end_giveaway env rsn g s = (Inl (GiveawayNotStarted (message_id g)), g, s))"
  by (simp add: start_def end_giveaway_def)

theorem start_on_ended_raises_AttributeError_witness:
  "start example_env example_giveaway = (Inl (AttributeError ''time_to_end''), example_giveaway)
   \<and> end_giveaway example_env PNone (example_giveaway\<lparr>starts_at := PTime 200, ends_at := PTime 300\<rparr>)
        \<lparr>draws = 0, lookups = 0\<rparr>
      = (Inl (GiveawayNotStarted (PInt 1)),
         example_giveaway\<lparr>starts_at := PTime 200, ends_at := PTime 300\<rparr>, \<lparr>draws = 0, lookups = 0\<rparr>)"
  using start_on_ended_raises_AttributeError [of example_env example_giveaway]
        start_on_ended_raises_AttributeError
          [of example_env "example_giveaway\<lparr>starts_at := PTime 200, ends_at := PTime 300\<rparr>"
              PNone "\<lparr>draws = 0, lookups = 0\<rparr>"]
  by (simp add: ended_def started_def time_gt_def example_env_def example_giveaway_def)

subsection \<open>Entering\<close>

lemma int_not_in_members: "\<not> py_in (PInt i) (map member_val ms)"
  by (induction ms) (auto simp: py_in_def py_eq_def member_val_def split: option.splits)

text \<open>
  Claim C5. \<^verbatim>\<open>add_entrant\<close> looks for \<^verbatim>\<open>member.id\<close>, an int, in \<^verbatim>\<open>self.entrants\<close>, the list
  of member objects, where it never is. So the branch that returns \<^verbatim>\<open>False\<close>, the signal
  for a member who has already entered, is never taken, whatever the event, the member
  and the environment are.
\<close>

theorem add_entrant_never_signals_already_entered:
  "fst (add_entrant env mo g k) \<noteq> Inr ReturnsFalse"
  by (auto simp: add_entrant_def int_not_in_members split: prod.splits sum.splits option.splits)

text \<open>
  Member 7 enters the example event twice: both calls return \<^verbatim>\<open>True\<close>, and the second
  leaves the entrant set as the first made it.
\<close>

lemma add_entrant_twice_example:
  "add_entrant example_env (Some \<lparr>member_id = 7, member_roles = []\<rparr>) example_giveaway 0
     = (Inr ReturnsTrue, example_giveaway\<lparr>entrants_set := [PInt 7]\<rparr>, 0)
   \<and> add_entrant example_env (Some \<lparr>member_id = 7, member_roles = []\<rparr>)
        (example_giveaway\<lparr>entrants_set := [PInt 7]\<rparr>) 0
     = (Inr ReturnsTrue, example_giveaway\<lparr>entrants_set := [PInt 7]\<rparr>, 0)"
  by (simp add: add_entrant_def verify_entry_def verify_requirements_def example_giveaway_def
      no_flags_def no_requirements_def entrants_def get_member_def example_env_def py_in_def
      py_eq_def member_val_def set_add_def)

subsection \<open>Defaults of omitted fields\<close>

text \<open>
  Called with a key missing, \<^verbatim>\<open>GiveawayMeta.__init__\<close> itself supplies the documented
  default.
\<close>

lemma GiveawayMeta_init_defaults:
  "GiveawayMeta_init now kw = Inr g \<Longrightarrow>
     (map_of kw ''prize'' = None \<longrightarrow> prize g = PStr ''Giveaway prize'')
   \<and> (map_of kw ''emoji'' = None \<longrightarrow> emoji g = PStr '':tada:'')
   \<and> (map_of kw ''amount_of_winners'' = None \<longrightarrow> amount_of_winners g = PInt 1)
   \<and> (map_of kw ''starts_at'' = None \<longrightarrow> starts_at g = PTime now)
   \<and> (map_of kw ''entrants'' = None \<longrightarrow> entrants_set g = [])
   \<and> (map_of kw ''winners'' = None \<longrightarrow> winners_list g = PList [])"
  by (auto simp: GiveawayMeta_init_def dict_get_def dict_get_default_def py_or_def set_of_list_def
      split: sum.splits prod.splits)

lemma GiveawayMeta_init_fields:
  "GiveawayMeta_init now kw = Inr g \<Longrightarrow>
     prize g = dict_get_default kw ''prize'' (PStr ''Giveaway prize'')
   \<and> emoji g = dict_get_default kw ''emoji'' (PStr '':tada:'')
   \<and> amount_of_winners g = dict_get_default kw ''amount_of_winners'' (PInt 1)
   \<and> starts_at g = dict_get_default kw ''starts_at'' (PTime now)
   \<and> py_set (py_or (dict_get_default kw ''entrants'' (PDict [])) (PDict [])) = Inr (entrants_set g)
   \<and> winners_list g = py_or (dict_get kw ''winners'') (PList [])"
  by (auto simp: GiveawayMeta_init_def split: sum.splits prod.splits)

lemma Giveaway_init_meta:
  "Giveaway_init env args = Inr (g, waits) \<Longrightarrow>
     \<exists>g0. GiveawayMeta_init (clock env) (super_kwargs env args) = Inr g0
          \<and> g = g0\<lparr>message_cache := message_cache g\<rparr>"
  by (auto simp: Giveaway_init_def split: sum.splits if_splits pyval.splits)


lemma super_kwargs_get:
  "dict_get_default (super_kwargs env args) ''prize'' d = dict_get_default args ''prize'' PNone"
  "dict_get_default (super_kwargs env args) ''emoji'' d = dict_get_default args ''emoji'' PNone"
  "dict_get_default (super_kwargs env args) ''amount_of_winners'' d
     = dict_get_default args ''amount_of_winners'' PNone"
  "dict_get_default (super_kwargs env args) ''starts_at'' d
     = dict_get_default args ''starts_at'' (PTime (import_clock env))"
  "dict_get_default (super_kwargs env args) ''entrants'' d = dict_get_default args ''entrants'' PNone"
  "dict_get (super_kwargs env args) ''winners'' = dict_get_default args ''winners'' PNone"
  by (simp_all add: super_kwargs_def dict_get_default_def dict_get_def)

text \<open>
  Claim C6. A \<^verbatim>\<open>Giveaway\<close> constructed with an optional argument omitted does not carry
  the documented default. \<^verbatim>\<open>Giveaway.__init__\<close> hands every parameter on to
  \<^verbatim>\<open>GiveawayMeta.__init__\<close> by keyword, so each key is present there, with the value \<^verbatim>\<open>None\<close>
  for an omitted argument, and \<^verbatim>\<open>kwargs.get(key, default)\<close> never falls back: prize, emoji
  and \<^verbatim>\<open>amount_of_winners\<close> are \<^verbatim>\<open>None\<close>. An omitted \<^verbatim>\<open>starts_at\<close> is the time at which
  the module was loaded, not the time of construction. Only entrants and winners get
  their default, the empty collection.
\<close>

theorem Giveaway_init_omitted_arguments:
  assumes "Giveaway_init env args = Inr (g, waits)"
  shows "(map_of args ''prize'' = None \<longrightarrow> prize g = PNone)
   \<and> (map_of args ''emoji'' = None \<longrightarrow> emoji g = PNone)
   \<and> (map_of args ''amount_of_winners'' = None \<longrightarrow> amount_of_winners g = PNone)
   \<and> (map_of args ''starts_at'' = None \<longrightarrow> starts_at g = PTime (import_clock env))
   \<and> (map_of args ''entrants'' = None \<longrightarrow> entrants_set g = [])
   \<and> (map_of args ''winners'' = None \<longrightarrow> winners_list g = PList [])"
proof -
  from Giveaway_init_meta [OF assms] obtain g0 where
    g0: "GiveawayMeta_init (clock env) (super_kwargs env args) = Inr g0"
    and g: "g = g0\<lparr>message_cache := message_cache g\<rparr>" by blast
  note f = GiveawayMeta_init_fields [OF g0, unfolded super_kwargs_get]
  have 1: "prize g = dict_get_default args ''prize'' PNone"
    and 2: "emoji g = dict_get_default args ''emoji'' PNone"
    and 3: "amount_of_winners g = dict_get_default args ''amount_of_winners'' PNone"
    and 4: "starts_at g = dict_get_default args ''starts_at'' (PTime (import_clock env))"
    and 6: "winners_list g = py_or (dict_get_default args ''winners'' PNone) (PList [])"
    using f by (subst g, simp)+
  have 5: "py_set (py_or (dict_get_default args ''entrants'' PNone) (PDict [])) = Inr (entrants_set g)"
    using f by (subst g) simp
  show ?thesis
    using 1 2 3 4 5 6
    by (auto simp: dict_get_default_def py_or_def set_of_list_def)
qed


theorem Giveaway_init_omitted_arguments_witness:
  "prize (fst (projr (Giveaway_init example_env
     [(''bot'', PBot 0), (''message_id'', PInt 1), (''channel_id'', PInt 3), (''guild_id'', PInt 2),
      (''ends_at'', PTime 500), (''flags'', PFlags no_flags),
      (''requirements'', PReq no_requirements)]))) = PNone
   \<and> starts_at (fst (projr (Giveaway_init example_env
     [(''bot'', PBot 0), (''message_id'', PInt 1), (''channel_id'', PInt 3), (''guild_id'', PInt 2),
      (''ends_at'', PTime 500), (''flags'', PFlags no_flags),
      (''requirements'', PReq no_requirements)]))) = PTime 40
   \<and> clock example_env = 100"
proof -
  let ?args = "[(''bot'', PBot 0), (''message_id'', PInt 1), (''channel_id'', PInt 3),
      (''guild_id'', PInt 2), (''ends_at'', PTime 500), (''flags'', PFlags no_flags),
      (''requirements'', PReq no_requirements)]"
  have "\<exists>g w. Giveaway_init example_env ?args = Inr (g, w)"
    by (auto simp: Giveaway_init_def Giveaway_params_def GiveawayMeta_init_def super_kwargs_def
        check_kwargs_def dict_get_def dict_get_default_def py_or_def set_of_list_def time_gt_def
        no_flags_def no_requirements_def example_env_def)
  then obtain g w where e: "Giveaway_init example_env ?args = Inr (g, w)" by blast
  have c: "import_clock example_env = 40" "clock example_env = 100"
    by (simp_all add: example_env_def)
  from Giveaway_init_omitted_arguments [OF e] show ?thesis
    by (simp add: e c)
qed

subsection \<open>Construction through every class\<close>

text \<open>
  \<open>construct\<close> stands for a call of any of the three classes. The two subclasses hand
  the required arguments on to \<^verbatim>\<open>GiveawayMeta.__init__\<close> unchanged.
\<close>

lemma super_kwargs_required:
  "dict_get (super_kwargs env kw) ''message_id'' = dict_get kw ''message_id''"
  "dict_get (super_kwargs env kw) ''guild_id'' = dict_get kw ''guild_id''"
  "dict_get (super_kwargs env kw) ''channel_id'' = dict_get kw ''channel_id''"
  "dict_get (super_kwargs env kw) ''ends_at'' = dict_get kw ''ends_at''"
  "dict_get (super_kwargs env kw) ''bot'' = dict_get kw ''bot''"
  by (simp_all add: super_kwargs_def dict_get_default_def dict_get_def)

lemma EndedGiveaway_init_meta:
  "EndedGiveaway_init env args = Inr g \<Longrightarrow>
     \<exists>g0. GiveawayMeta_init (clock env) (super_kwargs env args) = Inr g0
          \<and> g = g0\<lparr>reason := reason g\<rparr>"
  by (auto simp: EndedGiveaway_init_def split: sum.splits if_splits)

lemma construct_meta:
  "construct c env kw = Inr g \<Longrightarrow>
     \<exists>g0. GiveawayMeta_init (clock env) (if c = CGiveawayMeta then kw else super_kwargs env kw) = Inr g0
          \<and> ends_at g = ends_at g0 \<and> starts_at g = starts_at g0"
proof (cases c)
  case CGiveawayMeta
  assume "construct c env kw = Inr g"
  with CGiveawayMeta show ?thesis by (simp add: construct_def)
next
  case CGiveaway
  assume "construct c env kw = Inr g"
  with CGiveaway obtain w where "Giveaway_init env kw = Inr (g, w)"
    by (cases "Giveaway_init env kw") (auto simp: construct_def)
  from Giveaway_init_meta [OF this] obtain g0 where
    m: "GiveawayMeta_init (clock env) (super_kwargs env kw) = Inr g0"
    and eq: "g = g0\<lparr>message_cache := message_cache g\<rparr>" by blast
  have "ends_at g = ends_at g0" "starts_at g = starts_at g0"
    by (subst eq, simp)+
  with m CGiveaway show ?thesis by auto
next
  case CEndedGiveaway
  assume "construct c env kw = Inr g"
  with CEndedGiveaway have "EndedGiveaway_init env kw = Inr g" by (simp add: construct_def)
  from EndedGiveaway_init_meta [OF this] obtain g0 where
    m: "GiveawayMeta_init (clock env) (super_kwargs env kw) = Inr g0"
    and eq: "g = g0\<lparr>reason := reason g\<rparr>" by blast
  have "ends_at g = ends_at g0" "starts_at g = starts_at g0"
    by (subst eq, simp)+
  with m CEndedGiveaway show ?thesis by auto
qed

text \<open>
  Claim C3, as stated, fails: nothing in \<^verbatim>\<open>check_kwargs\<close> or in a constructor compares
  \<^verbatim>\<open>ends_at\<close> with \<^verbatim>\<open>starts_at\<close>. A construction with \<^verbatim>\<open>ends_at\<close> five microseconds and
  \<^verbatim>\<open>starts_at\<close> ten microseconds after the epoch succeeds, and the record ends before it
  starts.
\<close>

theorem construction_ends_before_start_counterexample:
  "GiveawayMeta_init 0
     [(''message_id'', PInt 1), (''guild_id'', PInt 2), (''channel_id'', PInt 3),
      (''ends_at'', PTime 5), (''starts_at'', PTime 10), (''bot'', PBot 0)]
   = Inr \<lparr> bot = PBot 0, message_id = PInt 1, channel_id = PInt 3, guild_id = PInt 2,
           prize = PStr ''Giveaway prize'', requirements = PNone, flags = PNone,
           emoji = PStr '':tada:'', amount_of_winners = PInt 1, entrants_set = [],
           winners_list = PList [], host_id = PNone, starts_at = PTime 10, ends_at = PTime 5,
           message_cache = None, reason = None \<rparr>
   \<and> time_gt (PTime 5) (PTime 10) = Inr False"
  by (simp add: GiveawayMeta_init_def check_kwargs_def dict_get_def dict_get_default_def
      py_or_def set_of_list_def time_gt_def)

text \<open>
  Claim C3, amended. A construction, through any of the three classes, either fails or
  yields a record that carries exactly the supplied \<^verbatim>\<open>ends_at\<close>, which is truthy, and
  exactly the supplied \<^verbatim>\<open>starts_at\<close> when one is supplied. The two instants are stored as
  given and are not compared, so the record satisfies \<^verbatim>\<open>ends_at > starts_at\<close> exactly when
  the supplied values do.
\<close>

theorem construction_keeps_supplied_times:
  "construct c env kw = Inr g \<Longrightarrow>
     ends_at g = dict_get kw ''ends_at'' \<and> truthy (ends_at g)
     \<and> (\<forall>v. map_of kw ''starts_at'' = Some v \<longrightarrow>
           starts_at g = v
           \<and> time_gt (ends_at g) (starts_at g) = time_gt (dict_get kw ''ends_at'') v)"
proof -
  assume a: "construct c env kw = Inr g"
  from construct_meta [OF a] obtain g0 where
    g0: "GiveawayMeta_init (clock env) (if c = CGiveawayMeta then kw else super_kwargs env kw) = Inr g0"
    and e: "ends_at g = ends_at g0" and s: "starts_at g = starts_at g0" by blast
  note k = GiveawayMeta_init_keeps_times [OF g0]
  have e': "ends_at g = dict_get kw ''ends_at''" "truthy (ends_at g)"
    using k e by (cases "c = CGiveawayMeta"; simp add: super_kwargs_required)+
  have "starts_at g = v" if "map_of kw ''starts_at'' = Some v" for v
    using k s that
    by (cases "c = CGiveawayMeta") (simp_all add: super_kwargs_def dict_get_default_def)
  with e' show ?thesis by simp
qed


theorem construction_keeps_supplied_times_witness:
  "ends_at (projr (construct CGiveaway example_env
       [(''bot'', PBot 0), (''message_id'', PInt 1), (''channel_id'', PInt 3), (''guild_id'', PInt 2),
        (''ends_at'', PTime 5), (''starts_at'', PTime 10), (''flags'', PFlags no_flags),
        (''requirements'', PReq no_requirements)])) = PTime 5
   \<and> starts_at (projr (construct CGiveaway example_env
       [(''bot'', PBot 0), (''message_id'', PInt 1), (''channel_id'', PInt 3), (''guild_id'', PInt 2),
        (''ends_at'', PTime 5), (''starts_at'', PTime 10), (''flags'', PFlags no_flags),
        (''requirements'', PReq no_requirements)])) = PTime 10
   \<and> time_gt (PTime 5) (PTime 10) = Inr False"
proof -
  let ?kw = "[(''bot'', PBot 0), (''message_id'', PInt 1), (''channel_id'', PInt 3),
      (''guild_id'', PInt 2), (''ends_at'', PTime 5), (''starts_at'', PTime 10),
      (''flags'', PFlags no_flags), (''requirements'', PReq no_requirements)]"
  have "\<exists>g. construct CGiveaway example_env ?kw = Inr g"
    by (auto simp: construct_def Giveaway_init_def Giveaway_params_def GiveawayMeta_init_def
        super_kwargs_def check_kwargs_def dict_get_def dict_get_default_def py_or_def
        set_of_list_def time_gt_def no_flags_def no_requirements_def example_env_def)
  then obtain g where g: "construct CGiveaway example_env ?kw = Inr g" ..
  from construction_keeps_supplied_times [OF g] show ?thesis
    by (simp add: g dict_get_def time_gt_def)
qed

lemma construct_meta_error:
  assumes "c = CGiveawayMeta
           \<or> (list_all (\<lambda>kv. fst kv \<in> set (if c = CEndedGiveaway then ''reason'' # Giveaway_params
                                               else Giveaway_params)) kw
              \<and> map_of kw ''bot'' \<noteq> None)"
    and "GiveawayMeta_init (clock env) (if c = CGiveawayMeta then kw else super_kwargs env kw) = Inl err"
  shows "construct c env kw = Inl err"
  using assms
  by (cases c) (auto simp: construct_def Giveaway_init_def EndedGiveaway_init_def)

lemma construct_no_GiveawayError:
  assumes "\<And>err. GiveawayMeta_init (clock env) (if c = CGiveawayMeta then kw else super_kwargs env kw)
                  = Inl err \<Longrightarrow> err = TypeError"
  shows "construct c env kw \<noteq> Inl (GiveawayError msg)"
proof (cases c)
  case CGiveawayMeta
  with assms show ?thesis by (auto simp: construct_def)
next
  case CGiveaway
  have "Giveaway_init env kw \<noteq> Inl (GiveawayError msg)"
    using assms CGiveaway
    by (auto simp: Giveaway_init_def time_gt_def
        split: sum.splits pyval.splits if_splits)
  with CGiveaway show ?thesis
    by (cases "Giveaway_init env kw") (auto simp: construct_def)
next
  case CEndedGiveaway
  with assms show ?thesis
    by (auto simp: construct_def EndedGiveaway_init_def split: sum.splits if_splits)
qed


text \<open>
  Claim C7, as stated, fails: the client handle \<^verbatim>\<open>bot\<close> is a fifth required argument. With
  the four named fields present and no \<^verbatim>\<open>bot\<close>, \<^verbatim>\<open>GiveawayMeta\<close> fails in \<^verbatim>\<open>check_kwargs\<close>
  for the missing \<^verbatim>\<open>bot\<close>, and \<^verbatim>\<open>Giveaway\<close>, where \<^verbatim>\<open>bot\<close> is a keyword-only parameter
  without default, fails with \<^verbatim>\<open>TypeError\<close>, which names no field of the event.
\<close>

theorem four_fields_without_bot_counterexample:
  "GiveawayMeta_init 0
     [(''message_id'', PInt 1), (''guild_id'', PInt 2), (''channel_id'', PInt 3),
      (''ends_at'', PTime 10)]
   = Inl (GiveawayError ''No bot object provided.'')
   \<and> Giveaway_init example_env
     [(''message_id'', PInt 1), (''guild_id'', PInt 2), (''channel_id'', PInt 3),
      (''ends_at'', PTime 10)]
   = Inl TypeError"
  by (simp add: GiveawayMeta_init_def check_kwargs_def dict_get_def Giveaway_init_def)

text \<open>
  Claim C7, amended. Construction requires five arguments, each with a truthy value: the
  message id, the guild id, the channel id, \<^verbatim>\<open>ends_at\<close> and the client handle \<^verbatim>\<open>bot\<close>. When
  all five are truthy, \<^verbatim>\<open>check_kwargs\<close> returns them and no class raises a \<^verbatim>\<open>GiveawayError\<close>.
  When one of them is absent or falsy, \<^verbatim>\<open>GiveawayMeta\<close> fails with a \<^verbatim>\<open>GiveawayError\<close> whose
  message names the first such argument, in that order; so do \<^verbatim>\<open>Giveaway\<close> and
  \<^verbatim>\<open>EndedGiveaway\<close> on a call whose keywords they accept, that is with known names and
  with \<^verbatim>\<open>bot\<close> passed. A call of these two classes that leaves \<^verbatim>\<open>bot\<close> out raises
  \<^verbatim>\<open>TypeError\<close>.
\<close>

theorem check_kwargs_required_fields:
  "(truthy (dict_get kw ''message_id'') \<and> truthy (dict_get kw ''guild_id'')
      \<and> truthy (dict_get kw ''channel_id'') \<and> truthy (dict_get kw ''ends_at'')
      \<and> truthy (dict_get kw ''bot'')
     \<longrightarrow> check_kwargs kw = Inr (dict_get kw ''message_id'', dict_get kw ''guild_id'',
             dict_get kw ''channel_id'', dict_get kw ''ends_at'', dict_get kw ''bot'')
         \<and> (\<forall>msg. construct c env kw \<noteq> Inl (GiveawayError msg)))
   \<and> (c = CGiveawayMeta
        \<or> (list_all (\<lambda>kv. fst kv \<in> set (if c = CEndedGiveaway then ''reason'' # Giveaway_params
                                            else Giveaway_params)) kw
           \<and> map_of kw ''bot'' \<noteq> None)
     \<longrightarrow> (\<not> truthy (dict_get kw ''message_id'')
            \<longrightarrow> construct c env kw = Inl (GiveawayError ''No message ID provided.''))
         \<and> (truthy (dict_get kw ''message_id'') \<and> \<not> truthy (dict_get kw ''guild_id'')
            \<longrightarrow> construct c env kw = Inl (GiveawayError ''No guild ID provided.''))
         \<and> (truthy (dict_get kw ''message_id'') \<and> truthy (dict_get kw ''guild_id'')
             \<and> \<not> truthy (dict_get kw ''channel_id'')
            \<longrightarrow> construct c env kw = Inl (GiveawayError ''No channel ID provided.''))
         \<and> (truthy (dict_get kw ''message_id'') \<and> truthy (dict_get kw ''guild_id'')
             \<and> truthy (dict_get kw ''channel_id'') \<and> \<not> truthy (dict_get kw ''ends_at'')
            \<longrightarrow> construct c env kw = Inl (GiveawayError ''No ends_at provided for the giveaway.''))
         \<and> (truthy (dict_get kw ''message_id'') \<and> truthy (dict_get kw ''guild_id'')
             \<and> truthy (dict_get kw ''channel_id'') \<and> truthy (dict_get kw ''ends_at'')
             \<and> \<not> truthy (dict_get kw ''bot'')
            \<longrightarrow> construct c env kw = Inl (GiveawayError ''No bot object provided.'')))
   \<and> (c \<noteq> CGiveawayMeta \<and> map_of kw ''bot'' = None \<longrightarrow> construct c env kw = Inl TypeError)"
proof -
  let ?kw' = "if c = CGiveawayMeta then kw else super_kwargs env kw"
  have get: "dict_get ?kw' ''message_id'' = dict_get kw ''message_id''"
    "dict_get ?kw' ''guild_id'' = dict_get kw ''guild_id''"
    "dict_get ?kw' ''channel_id'' = dict_get kw ''channel_id''"
    "dict_get ?kw' ''ends_at'' = dict_get kw ''ends_at''"
    "dict_get ?kw' ''bot'' = dict_get kw ''bot''"
    by (simp_all add: super_kwargs_required)
  note r = GiveawayMeta_init_required [of ?kw' "clock env", unfolded get]
  have 1: "check_kwargs kw = Inr (dict_get kw ''message_id'', dict_get kw ''guild_id'',
             dict_get kw ''channel_id'', dict_get kw ''ends_at'', dict_get kw ''bot'')
         \<and> (\<forall>msg. construct c env kw \<noteq> Inl (GiveawayError msg))"
    if t: "truthy (dict_get kw ''message_id'') \<and> truthy (dict_get kw ''guild_id'')
      \<and> truthy (dict_get kw ''channel_id'') \<and> truthy (dict_get kw ''ends_at'')
      \<and> truthy (dict_get kw ''bot'')"
  proof -
    from r [THEN conjunct1, rule_format, OF t]
    have "\<And>err. GiveawayMeta_init (clock env) ?kw' = Inl err \<Longrightarrow> err = TypeError"
      by blast
    from construct_no_GiveawayError [OF this] t show ?thesis
      by (simp add: check_kwargs_Inr)
  qed
  have 2: "GiveawayMeta_init (clock env) ?kw' = Inl err \<Longrightarrow> construct c env kw = Inl err"
    if "c = CGiveawayMeta
        \<or> (list_all (\<lambda>kv. fst kv \<in> set (if c = CEndedGiveaway then ''reason'' # Giveaway_params
                                            else Giveaway_params)) kw
           \<and> map_of kw ''bot'' \<noteq> None)" for err
    using construct_meta_error [OF that] .
  have 3: "construct c env kw = Inl TypeError" if "c \<noteq> CGiveawayMeta \<and> map_of kw ''bot'' = None"
    using that by (cases c) (simp_all add: construct_def Giveaway_init_def EndedGiveaway_init_def)
  note r2 = r [THEN conjunct2, THEN conjunct1, rule_format]
    and r3 = r [THEN conjunct2, THEN conjunct2, THEN conjunct1, rule_format]
    and r4 = r [THEN conjunct2, THEN conjunct2, THEN conjunct2, THEN conjunct1, rule_format]
    and r5 = r [THEN conjunct2, THEN conjunct2, THEN conjunct2, THEN conjunct2, THEN conjunct1,
                rule_format]
    and r6 = r [THEN conjunct2, THEN conjunct2, THEN conjunct2, THEN conjunct2, THEN conjunct2,
                rule_format]
  show ?thesis
  proof (intro conjI impI)
    assume "truthy (dict_get kw ''message_id'') \<and> truthy (dict_get kw ''guild_id'')
      \<and> truthy (dict_get kw ''channel_id'') \<and> truthy (dict_get kw ''ends_at'')
      \<and> truthy (dict_get kw ''bot'')"
    from 1 [OF this]
    show "check_kwargs kw = Inr (dict_get kw ''message_id'', dict_get kw ''guild_id'',
             dict_get kw ''channel_id'', dict_get kw ''ends_at'', dict_get kw ''bot'')"
      and "\<forall>msg. construct c env kw \<noteq> Inl (GiveawayError msg)"
      by simp_all
  next
    assume a: "c = CGiveawayMeta
        \<or> (list_all (\<lambda>kv. fst kv \<in> set (if c = CEndedGiveaway then ''reason'' # Giveaway_params
                                            else Giveaway_params)) kw
           \<and> map_of kw ''bot'' \<noteq> None)"
    {
      assume "\<not> truthy (dict_get kw ''message_id'')"
      from 2 [OF a r2 [OF this]]
      show "construct c env kw = Inl (GiveawayError ''No message ID provided.'')" .
    }
    {
      assume "truthy (dict_get kw ''message_id'') \<and> \<not> truthy (dict_get kw ''guild_id'')"
      from 2 [OF a r3 [OF this]]
      show "construct c env kw = Inl (GiveawayError ''No guild ID provided.'')" .
    }
    {
      assume "truthy (dict_get kw ''message_id'') \<and> truthy (dict_get kw ''guild_id'')
             \<and> \<not> truthy (dict_get kw ''channel_id'')"
      from 2 [OF a r4 [OF this]]
      show "construct c env kw = Inl (GiveawayError ''No channel ID provided.'')" .
    }
    {
      assume "truthy (dict_get kw ''message_id'') \<and> truthy (dict_get kw ''guild_id'')
             \<and> truthy (dict_get kw ''channel_id'') \<and> \<not> truthy (dict_get kw ''ends_at'')"
      from 2 [OF a r5 [OF this]]
      show "construct c env kw = Inl (GiveawayError ''No ends_at provided for the giveaway.'')" .
    }
    {
      assume "truthy (dict_get kw ''message_id'') \<and> truthy (dict_get kw ''guild_id'')
             \<and> truthy (dict_get kw ''channel_id'') \<and> truthy (dict_get kw ''ends_at'')
             \<and> \<not> truthy (dict_get kw ''bot'')"
      from 2 [OF a r6 [OF this]]
      show "construct c env kw = Inl (GiveawayError ''No bot object provided.'')" .
    }
  next
    assume "c \<noteq> CGiveawayMeta \<and> map_of kw ''bot'' = None"
    from 3 [OF this] show "construct c env kw = Inl TypeError" .
  qed
qed

theorem check_kwargs_required_fields_witness:
  "check_kwargs [(''message_id'', PInt 1), (''guild_id'', PInt 2), (''channel_id'', PInt 3),
                 (''ends_at'', PTime 50), (''bot'', PBot 0)]
     = Inr (PInt 1, PInt 2, PInt 3, PTime 50, PBot 0)
   \<and> construct CGiveaway example_env
        [(''message_id'', PInt 1), (''channel_id'', PInt 3), (''ends_at'', PTime 50),
         (''bot'', PBot 0)]
     = Inl (GiveawayError ''No guild ID provided.'')
   \<and> construct CEndedGiveaway example_env
        [(''message_id'', PInt 1), (''guild_id'', PInt 2), (''channel_id'', PInt 3),
         (''ends_at'', PTime 50)]
     = Inl TypeError"
  using check_kwargs_required_fields [of "[(''message_id'', PInt 1), (''guild_id'', PInt 2), (''channel_id'', PInt 3),
                     (''ends_at'', PTime 50), (''bot'', PBot 0)]" CGiveawayMeta example_env]
        check_kwargs_required_fields [of "[(''message_id'', PInt 1), (''channel_id'', PInt 3), (''ends_at'', PTime 50),
                     (''bot'', PBot 0)]" CGiveaway example_env]
        check_kwargs_required_fields [of "[(''message_id'', PInt 1), (''guild_id'', PInt 2), (''channel_id'', PInt 3),
                     (''ends_at'', PTime 50)]" CEndedGiveaway example_env]
  by (simp add: dict_get_def Giveaway_params_def)

subsection \<open>What entry evaluation may change\<close>

text \<open>\<^verbatim>\<open>verify_entry\<close> changes nothing of the record but the message cache.\<close>

lemma verify_items_frame:
  "verify_items env m items g k = (out, g', k') \<Longrightarrow> g' = g\<lparr>message_cache := message_cache g'\<rparr>"
proof (induction env m items g k rule: verify_items.induct)
  case (1 env m g k)
  then show ?case by simp
next
  case (2 env m key rest g k)
  then show ?case by simp
next
  case (3 env m key rs rest g k)
  then show ?case by (simp split: option.splits)
next
  case (4 env m key v rest g k)
  show ?case
  proof (cases "v = 0")
    case True
    with 4 show ?thesis by simp
  next
    case False
    note nz = this
    consider (lvl) "key = ''amari_level''" | (wk) "key = ''amari_weekly''"
      | (msg) "key = ''messages''"
      | (other) "key \<noteq> ''amari_level''" "key \<noteq> ''amari_weekly''" "key \<noteq> ''messages''"
      by blast
    then show ?thesis
    proof cases
      case lvl
      with "4.IH"(2) "4.prems" nz show ?thesis
        by (simp add: Let_def split: amari_reply.splits if_splits)
    next
      case wk
      with "4.IH"(3) "4.prems" nz show ?thesis
        by (simp add: Let_def split: if_splits)
    next
      case msg
      with "4.IH"(4) "4.prems" nz show ?thesis
        by (auto simp: Let_def split: option.splits if_splits)
    next
      case other
      with "4.IH"(5) "4.prems" nz show ?thesis by simp
    qed
  qed
qed


lemma verify_entry_frame:
  "verify_entry env mo g k = (out, g', k') \<Longrightarrow> g' = g\<lparr>message_cache := message_cache g'\<rparr>"
  unfolding verify_entry_def verify_requirements_def
  by (auto split: pyval.splits option.splits if_splits sum.splits bool.splits
      dest: verify_items_frame)

subsection \<open>Reroll\<close>

lemma reroll_loop_frame:
  "reroll_loop env c n pool winner g s = (out, g', s') \<Longrightarrow>
     g' = g\<lparr>message_cache := message_cache g'\<rparr>"
proof (induction n arbitrary: pool winner g s)
  case 0
  then show ?case by simp
next
  case (Suc n)
  show ?case
  proof (cases "pool = []")
    case True
    with Suc.prems show ?thesis by simp
  next
    case False
    let ?w = "pool ! (rng env (draws s) mod length pool)"
    let ?s1 = "s\<lparr>draws := Suc (draws s)\<rparr>"
    obtain r g1 k1 where v: "verify_entry env ?w g (lookups ?s1) = (r, g1, k1)"
      by (metis prod_cases3)
    have g1: "g1 = g\<lparr>message_cache := message_cache g1\<rparr>"
      by (rule verify_entry_frame [OF v])
    have step: "\<And>p wn. reroll_loop env c n p wn g1 (?s1\<lparr>lookups := k1\<rparr>) = (out, g', s')
        \<Longrightarrow> g' = g\<lparr>message_cache := message_cache g'\<rparr>"
    proof -
      fix p wn
      assume "reroll_loop env c n p wn g1 (?s1\<lparr>lookups := k1\<rparr>) = (out, g', s')"
      from Suc.IH [OF this] have "g' = g1\<lparr>message_cache := message_cache g'\<rparr>" .
      with g1 show "g' = g\<lparr>message_cache := message_cache g'\<rparr>"
        by (metis giveaway.update_convs(15) giveaway.surjective)
    qed
    from Suc.prems False v show ?thesis
      using g1 step
      by (auto simp: Let_def split: sum.splits option.splits if_splits)
  qed
qed




text \<open>
  Claim C10. When the published message cannot be resolved, and when the expanded pool
  is empty, \<^verbatim>\<open>reroll\<close> returns with the record, winners included, exactly as it was and
  with no draw and no lookup made. Conversely, a call after which the winners differ
  resolved the message, had a non-empty pool and ran the drawing loop to its end.
\<close>

theorem reroll_early_returns_leave_record:
  "(get_message env = Inr False \<longrightarrow> reroll env count g s = (Inr CouldNotFindMessage, g, s))
   \<and> (get_message env = Inr True \<and> apply_multi env (entrants env g) = []
        \<longrightarrow> reroll env count g s = (Inr NotEnoughEntrants, g, s))
   \<and> (winners_list (fst (snd (reroll env count g s))) \<noteq> winners_list g
        \<longrightarrow> get_message env = Inr True \<and> apply_multi env (entrants env g) \<noteq> []
            \<and> (\<exists>reply. fst (reroll env count g s) = Inr reply))"
proof -
  have "winners_list g' = winners_list g"
    if "reroll_loop env c n pool [] g s = (Inl err, g', s')" for c n pool err g' s'
    using reroll_loop_frame [OF that] by (metis giveaway.select_convs(11) giveaway.surjective giveaway.update_convs(15))
  then show ?thesis
    by (auto simp: reroll_def Let_def split: sum.splits bool.splits prod.splits)
qed


text \<open>Unfolding the example event in the example environment.\<close>

lemmas example_simps =
  reroll_def get_message_def entrants_def get_member_def verify_entry_def verify_requirements_def
  example_giveaway_def example_env_def no_flags_def no_requirements_def py_eq_def member_val_def
  Let_def

theorem reroll_early_returns_leave_record_witness:
  "reroll (example_env\<lparr>message_cached := False, message_fetched := False\<rparr>) None
       (example_giveaway\<lparr>entrants_set := [PInt 7], winners_list := PList [PInt 7]\<rparr>)
       \<lparr>draws = 0, lookups = 0\<rparr>
     = (Inr CouldNotFindMessage,
        example_giveaway\<lparr>entrants_set := [PInt 7], winners_list := PList [PInt 7]\<rparr>,
        \<lparr>draws = 0, lookups = 0\<rparr>)
   \<and> reroll (example_env\<lparr>apply_multi := (\<lambda>xs. [])\<rparr>) None
       (example_giveaway\<lparr>entrants_set := [PInt 7], winners_list := PList [PInt 7]\<rparr>)
       \<lparr>draws = 0, lookups = 0\<rparr>
     = (Inr NotEnoughEntrants,
        example_giveaway\<lparr>entrants_set := [PInt 7], winners_list := PList [PInt 7]\<rparr>,
        \<lparr>draws = 0, lookups = 0\<rparr>)"
  using reroll_early_returns_leave_record [of "example_env\<lparr>message_cached := False, message_fetched := False\<rparr>" None
          "example_giveaway\<lparr>entrants_set := [PInt 7], winners_list := PList [PInt 7]\<rparr>"
          "\<lparr>draws = 0, lookups = 0\<rparr>"]
        reroll_early_returns_leave_record [of "example_env\<lparr>apply_multi := (\<lambda>xs. [])\<rparr>" None
          "example_giveaway\<lparr>entrants_set := [PInt 7], winners_list := PList [PInt 7]\<rparr>"
          "\<lparr>draws = 0, lookups = 0\<rparr>"]
  by (simp add: get_message_def example_env_def)






text \<open>
  When role 5 is required, the first draw, member 7, is rejected and removed from the
  pool; the second draw, member 8, completes the count. Two draws, one of them rejected.
\<close>

lemma reroll_rejected_draw_example:
  "reroll example_env (Some 1)
       (example_giveaway
          \<lparr>entrants_set := [PInt 7, PInt 8],
           requirements := PReq \<lparr> req_null = False,
                                  req_role_dict = [(''bypass'', RList []), (''required'', RList [5])],
                                  req_messages = None, req_json = [] \<rparr>\<rparr>)
       \<lparr>draws = 0, lookups = 0\<rparr>
     = (Inr (Congratulations [8]),
        example_giveaway
          \<lparr>entrants_set := [PInt 7, PInt 8],
           requirements := PReq \<lparr> req_null = False,
                                  req_role_dict = [(''bypass'', RList []), (''required'', RList [5])],
                                  req_messages = None, req_json = [] \<rparr>,
           winners_list := PList [PInt 8]\<rparr>,
        \<lparr>draws = 2, lookups = 0\<rparr>)
   \<and> reroll_rejected example_env 1 2
       [Some \<lparr>member_id = 7, member_roles = []\<rparr>, Some \<lparr>member_id = 8, member_roles = [5]\<rparr>] []
       (example_giveaway
          \<lparr>entrants_set := [PInt 7, PInt 8],
           requirements := PReq \<lparr> req_null = False,
                                  req_role_dict = [(''bypass'', RList []), (''required'', RList [5])],
                                  req_messages = None, req_json = [] \<rparr>\<rparr>)
       \<lparr>draws = 0, lookups = 0\<rparr> = 1"
  by (simp add: example_simps maybe_bypass_def eval_nat_numeral)



subsection \<open>Winner selection\<close>










text \<open>Unfolding a call of \<^verbatim>\<open>pick_winners\<close> on the example event.\<close>

lemmas pick_simps =
  pick_winners_def entrants_def get_member_def verify_entry_def verify_requirements_def
  example_giveaway_def example_env_def no_flags_def no_requirements_def py_eq_def py_in_def
  member_val_def member_in_def maybe_bypass_def Let_def eval_nat_numeral


text \<open>
  Two winners are wanted and role 5 is required. The first draw is member 7, who lacks
  the role and is dropped; the second is member 8. One winner results from two draws.
\<close>

lemma pick_winners_fewer_example:
  "pick_winners example_env
       [Some \<lparr>member_id = 7, member_roles = []\<rparr>, Some \<lparr>member_id = 8, member_roles = [5]\<rparr>]
       (example_giveaway
          \<lparr>amount_of_winners := PInt 2,
           requirements := PReq \<lparr> req_null = False,
                                  req_role_dict = [(''bypass'', RList []), (''required'', RList [5])],
                                  req_messages = None, req_json = [] \<rparr>\<rparr>)
       \<lparr>draws = 0, lookups = 0\<rparr>
     = (Inr [Some \<lparr>member_id = 8, member_roles = [5]\<rparr>],
        example_giveaway
          \<lparr>amount_of_winners := PInt 2,
           requirements := PReq \<lparr> req_null = False,
                                  req_role_dict = [(''bypass'', RList []), (''required'', RList [5])],
                                  req_messages = None, req_json = [] \<rparr>\<rparr>,
        \<lparr>draws = 2, lookups = 0\<rparr>)"
  by (simp add: pick_simps)


subsection \<open>Serialization\<close>

lemma dict_update_get:
  "dict_get (dict_update d k v) k' = (if k' = k then v else dict_get d k')"
  "dict_get_default (dict_update d k v) k' dflt = (if k' = k then v else dict_get_default d k' dflt)"
  by (induction d) (auto simp: dict_update_def dict_get_def dict_get_default_def)

lemma py_set_entrants:
  "list_all hashable es \<Longrightarrow> set_of_list es = es \<Longrightarrow>
     py_set (py_or (PList es) (PDict [])) = Inr es"
  by (cases es) (auto simp: py_or_def set_of_list_def)

text \<open>
  Claim C4, amended. Take an event record whose ids are truthy, whose requirements and
  flags are set, whose \<^verbatim>\<open>ends_at\<close> does not serialize to the timestamp zero, whose entrants
  form a set and whose winners are a non-empty value or the empty list. Suppose the
  serializers of \<^verbatim>\<open>Requirements\<close> and \<^verbatim>\<open>GiveawayFlags\<close>, which are not part of this file, give
  the requirements and the flags back, and the conversion of the two instants to a float
  timestamp and back gives the same instants. Then \<^verbatim>\<open>from_json\<close>, applied to the serialized
  form with a client handle \<open>b\<close> supplied, yields a record equal to the original in
  every serialized field, the handle being \<open>b\<close>.
\<close>

theorem json_round_trip:
  assumes ids: "truthy (message_id x)" "truthy (guild_id x)" "truthy (channel_id x)" "truthy b"
    and r: "requirements x = PReq r" "req_from_json env (PDict (req_json r)) = Inr r"
    and f: "flags x = PFlags f" "flags_from_json env (PDict (flags_json f)) = Inr f"
    and e: "ends_at x = PTime e" "to_timestamp env e \<noteq> 0"
           "from_timestamp env (to_timestamp env e) = e"
    and s: "starts_at x = PTime s" "from_timestamp env (to_timestamp env s) = s"
    and es: "list_all hashable (entrants_set x)" "set_of_list (entrants_set x) = entrants_set x"
    and ws: "py_or (winners_list x) (PList []) = winners_list x"
  shows "\<exists>j. giveaway_json env x = Inr j
           \<and> from_json CGiveawayMeta env (dict_update j ''bot'' b)
               = Inr (x\<lparr>bot := b, message_cache := None, reason := None\<rparr>)"
proof -
  let ?j = "[(''message_id'', message_id x), (''channel_id'', channel_id x),
             (''guild_id'', guild_id x), (''prize'', prize x),
             (''amount_of_winners'', amount_of_winners x),
             (''requirements'', PDict (req_json r)), (''flags'', PDict (flags_json f)),
             (''emoji'', emoji x), (''entrants'', PList (entrants_set x)),
             (''winners'', winners_list x), (''host'', host_id x),
             (''ends_at'', PFloat (to_timestamp env e)),
             (''starts_at'', PFloat (to_timestamp env s))]"
  have j: "giveaway_json env x = Inr ?j"
    using r f e s
    by (simp add: giveaway_json_def requirements_json_def flags_to_json_def timestamp_def)
  have g: "dict_get ?j ''message_id'' = message_id x" "dict_get ?j ''guild_id'' = guild_id x"
      "dict_get ?j ''channel_id'' = channel_id x"
      "dict_get ?j ''ends_at'' = PFloat (to_timestamp env e)"
      "dict_get ?j ''starts_at'' = PFloat (to_timestamp env s)"
      "dict_get ?j ''host'' = host_id x" "dict_get ?j ''bot'' = PNone"
    by (simp_all add: dict_get_def)
  have gd: "\<And>d. dict_get_default ?j ''requirements'' d = PDict (req_json r)"
      "\<And>d. dict_get_default ?j ''flags'' d = PDict (flags_json f)"
      "\<And>d. dict_get_default ?j ''prize'' d = prize x"
      "\<And>d. dict_get_default ?j ''amount_of_winners'' d = amount_of_winners x"
      "\<And>d. dict_get_default ?j ''emoji'' d = emoji x"
      "\<And>d. dict_get_default ?j ''entrants'' d = PList (entrants_set x)"
      "\<And>d. dict_get_default ?j ''winners'' d = winners_list x"
    by (simp_all add: dict_get_default_def)
  let ?kw = "[(''message_id'', message_id x), (''channel_id'', channel_id x),
              (''guild_id'', guild_id x), (''bot'', b), (''prize'', prize x),
              (''amount_of_winners'', amount_of_winners x), (''requirements'', PReq r),
              (''flags'', PFlags f), (''emoji'', emoji x),
              (''entrants'', PList (entrants_set x)), (''winners'', winners_list x),
              (''host'', host_id x), (''ends_at'', PTime e), (''starts_at'', PTime s)]"
  have m: "meta_from_json CGiveawayMeta env (dict_update ?j ''bot'' b)
             = GiveawayMeta_init (clock env) ?kw"
    using ids r f e s
    by (simp add: meta_from_json_def check_kwargs_def dict_update_get g gd fromtimestamp_def
        construct_def Let_def)
  have "GiveawayMeta_init (clock env) ?kw = Inr (x\<lparr>bot := b, message_cache := None, reason := None\<rparr>)"
    using ids r f e s ws py_set_entrants [OF es]
    by (cases x)
       (simp add: GiveawayMeta_init_def check_kwargs_def dict_get_def dict_get_default_def)
  with m j show ?thesis by (simp add: from_json_def)
qed


text \<open>
  Claim C4, as stated, fails. An event that ends at the epoch can be constructed, a
  \<^verbatim>\<open>datetime\<close> being truthy; its \<^verbatim>\<open>ends_at\<close> serializes to \<^verbatim>\<open>0.0\<close>, which is falsy, so
  \<^verbatim>\<open>check_kwargs\<close>, called by \<^verbatim>\<open>from_json\<close> on the serialized form, reports \<^verbatim>\<open>ends_at\<close> as
  missing, and no record comes back.
\<close>

theorem json_round_trip_epoch_counterexample:
  "GiveawayMeta_init 100
     [(''message_id'', PInt 1), (''guild_id'', PInt 2), (''channel_id'', PInt 3),
      (''bot'', PBot 0), (''requirements'', PReq no_requirements), (''flags'', PFlags no_flags),
      (''host'', PInt 8), (''starts_at'', PTime (- 1000000)), (''ends_at'', PTime 0)]
     = Inr (example_giveaway\<lparr>starts_at := PTime (- 1000000), ends_at := PTime 0\<rparr>)
   \<and> giveaway_json example_env (example_giveaway\<lparr>starts_at := PTime (- 1000000), ends_at := PTime 0\<rparr>)
     = Inr [(''message_id'', PInt 1), (''channel_id'', PInt 3), (''guild_id'', PInt 2),
            (''prize'', PStr ''Giveaway prize''), (''amount_of_winners'', PInt 1),
            (''requirements'', PDict []), (''flags'', PDict []), (''emoji'', PStr '':tada:''),
            (''entrants'', PList []), (''winners'', PList []), (''host'', PInt 8),
            (''ends_at'', PFloat 0), (''starts_at'', PFloat (- 1))]
   \<and> from_json CGiveawayMeta example_env
       (dict_update
          [(''message_id'', PInt 1), (''channel_id'', PInt 3), (''guild_id'', PInt 2),
           (''prize'', PStr ''Giveaway prize''), (''amount_of_winners'', PInt 1),
           (''requirements'', PDict []), (''flags'', PDict []), (''emoji'', PStr '':tada:''),
           (''entrants'', PList []), (''winners'', PList []), (''host'', PInt 8),
           (''ends_at'', PFloat 0), (''starts_at'', PFloat (- 1))]
          ''bot'' (PBot 0))
     = Inl (GiveawayError ''No ends_at provided for the giveaway.'')"
  by (simp add: GiveawayMeta_init_def check_kwargs_def dict_get_def dict_get_default_def py_or_def
      set_of_list_def example_giveaway_def giveaway_json_def requirements_json_def
      flags_to_json_def timestamp_def example_env_def no_requirements_def no_flags_def
      from_json_def meta_from_json_def dict_update_def)

theorem json_round_trip_witness:
  "\<exists>j. giveaway_json example_env (example_giveaway\<lparr>entrants_set := [PInt 7]\<rparr>) = Inr j
      \<and> from_json CGiveawayMeta example_env (dict_update j ''bot'' (PBot 1))
          = Inr (example_giveaway\<lparr>entrants_set := [PInt 7], bot := PBot 1\<rparr>)"
proof -
  let ?x = "example_giveaway\<lparr>entrants_set := [PInt 7]\<rparr>"
  have "\<exists>j. giveaway_json example_env ?x = Inr j
           \<and> from_json CGiveawayMeta example_env (dict_update j ''bot'' (PBot 1))
               = Inr (?x\<lparr>bot := PBot 1, message_cache := None, reason := None\<rparr>)"
    by (rule json_round_trip [where r = no_requirements and f = no_flags and e = 50 and s = 10])
       (simp_all add: example_giveaway_def example_env_def no_requirements_def no_flags_def
          set_of_list_def set_add_def py_in_def py_or_def)
  then show ?thesis by (simp add: example_giveaway_def)
qed

subsection \<open>Failures of the reputation service\<close>

text \<open>
  The loop over the rules returns \<^verbatim>\<open>True\<close> only by running off the end of the list, so
  when it does so on a prefix, the run on the whole list continues with the rest.
\<close>

lemma verify_items_append:
  "verify_items env m pre g k = (Inr (True, st), g1, k1) \<Longrightarrow>
     verify_items env m (pre @ rest) g k = verify_items env m rest g1 k1"
proof (induction pre arbitrary: g k)
  case Nil
  then show ?case by simp
next
  case (Cons a pre)
  obtain key val where a: "a = (key, val)" by (cases a)
  show ?case
  proof (cases val)
    case RNone
    with Cons a show ?thesis by simp
  next
    case (RList rs)
    with Cons.prems a have "check_roles key rs m = None"
      "verify_items env m pre g k = (Inr (True, st), g1, k1)"
      by (simp_all split: option.splits)
    with Cons.IH [of g k] a RList show ?thesis by simp
  next
    case (RNum v)
    show ?thesis
    proof (cases "v = 0")
      case True
      with Cons a RNum show ?thesis by simp
    next
      case False
      note nz = this
      consider (lvl) "key = ''amari_level''" | (wk) "key = ''amari_weekly''"
        | (msg) "key = ''messages''"
        | (other) "key \<noteq> ''amari_level''" "key \<noteq> ''amari_weekly''" "key \<noteq> ''messages''"
        by blast
      then show ?thesis
      proof cases
        case lvl
        from Cons.prems a RNum nz lvl obtain u where
          u: "amari env k (member_id m) = AmariReturns u"
             "\<not> user_get (user_or_empty u) ''level'' < v"
             "verify_items env m pre g (Suc k) = (Inr (True, st), g1, k1)"
          by (auto simp: Let_def split: amari_reply.splits if_splits)
        from Cons.IH [OF u(3)] u(1,2) a RNum nz lvl show ?thesis
          by (simp add: Let_def)
      next
        case wk
        let ?x = "user_get (case amari env k (member_id m) of AmariRaises \<Rightarrow> []
                     | AmariReturns u \<Rightarrow> user_or_empty u) ''weeklyExp''"
        from Cons.prems a RNum nz wk have
          u: "\<not> ?x < v" "verify_items env m pre g (Suc k) = (Inr (True, st), g1, k1)"
          by (auto simp: Let_def split: if_splits)
        from Cons.IH [OF u(2)] u(1) a RNum nz wk show ?thesis
          by (simp add: Let_def)
      next
        case msg
        from Cons.prems a RNum nz msg obtain c where
          c: "message_cache g = Some c"
             "v \<le> (case map_of c (member_id m) of None \<Rightarrow> 0 | Some n \<Rightarrow> n)"
             "verify_items env m pre (g\<lparr>message_cache := Some (setdefault c (member_id m) 0)\<rparr>) k
                = (Inr (True, st), g1, k1)"
          by (auto simp: Let_def split: option.splits if_splits)
        from Cons.IH [OF c(3)] c(1,2) a RNum nz msg show ?thesis
          by (simp add: Let_def)
      next
        case other
        with Cons.prems a RNum nz have "verify_items env m pre g k = (Inr (True, st), g1, k1)"
          by simp
        from Cons.IH [OF this] other a RNum nz show ?thesis by simp
      qed
    qed
  qed
qed

text \<open>
  Claim C9. Let the evaluation of member \<open>m\<close> reach a numeric rule \<open>key\<close> with the
  threshold \<open>v\<close>: the donor check passes, the rule set is not null, no bypass role is
  held, and the rules before it, \<open>pre\<close>, are passed. Let the reputation lookup made
  there fail. If the rule is the level threshold, the failure leaves \<^verbatim>\<open>verify_entry\<close> and
  \<^verbatim>\<open>add_entrant\<close> as an exception. If it is the weekly threshold, nothing is raised and the
  member is judged with the weekly score 0: rejected with that score when the threshold
  is positive, and passed on to the remaining rules otherwise.
\<close>

theorem reputation_lookup_failures:
  assumes fl: "flags g = PFlags f"
    and dn: "no_donor f \<longrightarrow>
               (\<exists>d. (case donor f of Some d \<Rightarrow> Some d | None \<Rightarrow> host env g) = Some d
                    \<and> member_id m \<noteq> member_id d)"
    and rq: "requirements g = PReq r" "\<not> req_null r"
    and bp: "map_of (req_role_dict r) ''bypass'' = Some b" "maybe_bypass b m = Inr False"
    and items: "req_role_dict r = pre @ (key, RNum v) # rest"
    and pre: "verify_items env m pre g k = (Inr (True, NoStatement), g1, k1)"
    and v: "v \<noteq> 0"
    and fails: "amari env k1 (member_id m) = AmariRaises"
  shows "(key = ''amari_level'' \<longrightarrow>
            verify_entry env (Some m) g k = (Inl ServiceError, g1, Suc k1)
          \<and> add_entrant env (Some m) g k = (Inl ServiceError, g1, Suc k1))
       \<and> (key = ''amari_weekly'' \<longrightarrow>
            verify_entry env (Some m) g k
              = (if 0 < v then (Inr (False, AmariWeeklyShort 0 v), g1, Suc k1)
                 else verify_items env m rest g1 (Suc k1)))"
proof -
  have "verify_entry env (Some m) g k = verify_requirements env (Some m) g k"
    using fl dn by (auto simp: verify_entry_def)
  also have "\<dots> = verify_items env m (req_role_dict r) g k"
    using rq bp by (simp add: verify_requirements_def)
  also have "\<dots> = verify_items env m ((key, RNum v) # rest) g1 k1"
    unfolding items by (rule verify_items_append [OF pre])
  finally have e: "verify_entry env (Some m) g k = verify_items env m ((key, RNum v) # rest) g1 k1" .
  have lvl: "verify_items env m ((''amari_level'', RNum v) # rest) g1 k1
               = (Inl ServiceError, g1, Suc k1)"
    using v fails by simp
  have wk: "verify_items env m ((''amari_weekly'', RNum v) # rest) g1 k1
              = (if 0 < v then (Inr (False, AmariWeeklyShort 0 v), g1, Suc k1)
                 else verify_items env m rest g1 (Suc k1))"
    using v fails by (simp add: user_get_def)
  show ?thesis
  proof (intro conjI impI)
    assume "key = ''amari_level''"
    with e lvl show "verify_entry env (Some m) g k = (Inl ServiceError, g1, Suc k1)"
      by simp
    then show "add_entrant env (Some m) g k = (Inl ServiceError, g1, Suc k1)"
      by (simp add: add_entrant_def)
  next
    assume "key = ''amari_weekly''"
    with e wk show "verify_entry env (Some m) g k
              = (if 0 < v then (Inr (False, AmariWeeklyShort 0 v), g1, Suc k1)
                 else verify_items env m rest g1 (Suc k1))"
      by simp
  qed
qed


theorem reputation_lookup_failures_witness:
  "add_entrant (example_env\<lparr>amari := (\<lambda>k i. AmariRaises)\<rparr>)
       (Some \<lparr>member_id = 7, member_roles = []\<rparr>)
       (example_giveaway\<lparr>requirements := PReq
          \<lparr> req_null = False,
            req_role_dict = [(''bypass'', RList []), (''amari_level'', RNum 5)],
            req_messages = None, req_json = [] \<rparr>\<rparr>) 0
     = (Inl ServiceError,
        example_giveaway\<lparr>requirements := PReq
          \<lparr> req_null = False,
            req_role_dict = [(''bypass'', RList []), (''amari_level'', RNum 5)],
            req_messages = None, req_json = [] \<rparr>\<rparr>, 1)
   \<and> verify_entry (example_env\<lparr>amari := (\<lambda>k i. AmariRaises)\<rparr>)
       (Some \<lparr>member_id = 7, member_roles = []\<rparr>)
       (example_giveaway\<lparr>requirements := PReq
          \<lparr> req_null = False,
            req_role_dict = [(''bypass'', RList []), (''amari_weekly'', RNum 5)],
            req_messages = None, req_json = [] \<rparr>\<rparr>) 0
     = (Inr (False, AmariWeeklyShort 0 5),
        example_giveaway\<lparr>requirements := PReq
          \<lparr> req_null = False,
            req_role_dict = [(''bypass'', RList []), (''amari_weekly'', RNum 5)],
            req_messages = None, req_json = [] \<rparr>\<rparr>, 1)"
proof -
  let ?env = "example_env\<lparr>amari := (\<lambda>k i. AmariRaises)\<rparr>"
  let ?m = "\<lparr>member_id = 7, member_roles = []\<rparr>"
  let ?r = "\<lambda>key. \<lparr> req_null = False,
            req_role_dict = [(''bypass'', RList []), (key, RNum 5)],
            req_messages = None, req_json = [] \<rparr>"
  let ?g = "\<lambda>key. example_giveaway\<lparr>requirements := PReq (?r key)\<rparr>"
  have a: "flags (?g key) = PFlags no_flags" for key
    by (simp add: example_giveaway_def)
  have b: "no_donor no_flags \<longrightarrow>
      (\<exists>d. (case donor no_flags of Some d \<Rightarrow> Some d | None \<Rightarrow> host ?env (?g key)) = Some d
           \<and> member_id ?m \<noteq> member_id d)" for key
    by (simp add: no_flags_def)
  have c: "verify_items ?env ?m [(''bypass'', RList [])] (?g key) 0
             = (Inr (True, NoStatement), ?g key, 0)" for key
    by simp
  have d: "amari ?env 0 (member_id ?m) = AmariRaises" by simp
  from reputation_lookup_failures [where env = ?env and g = "?g ''amari_level''" and f = no_flags and m = ?m
      and r = "?r ''amari_level''" and b = "RList []" and pre = "[(''bypass'', RList [])]"
      and key = "''amari_level''" and v = 5 and rest = "[]" and k = 0 and ?g1.0 = "?g ''amari_level''"
      and ?k1.0 = 0, OF a b _ _ _ _ _ c _ d]
    reputation_lookup_failures [where env = ?env and g = "?g ''amari_weekly''" and f = no_flags and m = ?m
      and r = "?r ''amari_weekly''" and b = "RList []" and pre = "[(''bypass'', RList [])]"
      and key = "''amari_weekly''" and v = 5 and rest = "[]" and k = 0 and ?g1.0 = "?g ''amari_weekly''"
      and ?k1.0 = 0, OF a b _ _ _ _ _ c _ d]
  show ?thesis
    by (simp add: maybe_bypass_def)
qed

end
